theory Spec2Isabelle
  imports Complex_Main "HOL-Library.Sublist" "HOL-Library.AList"
begin

section \<open>Python values and exceptions\<close>

text \<open>
  The server moves JSON-shaped Python values around: the configuration, the argument
  bag of a call, tool schemas, HTTP bodies. A dict is an association list (first
  binding of a key wins, as \<open>map_of\<close> reads it). A float is carried as the rational its
  literal denotes; the code never computes with one.
\<close>

datatype json =
    JNull
  | JBool bool
  | JInt int
  | JFloat rat
  | JStr string
  | JArr "json list"
  | JObj "(string \<times> json) list"

text \<open>
  Exceptions, one constructor per class the code raises or catches by name. Every
  constructor carries \<open>str(e)\<close>; the status error also carries the status code its
  handler reads. All of them are subclasses of Python's \<open>Exception\<close>.
\<close>

datatype exc =
    KeyError string
  | ValueError string
  | TypeError string
  | AttributeError string
  | IndexError string
  | FileNotFoundError string
  | OSError string
  | JSONDecodeError string
  | ConnectError string
  | TimeoutException string
  | RequestError string
  | HTTPStatusError nat string
  | Exception string

fun str_exc :: "exc \<Rightarrow> string" where
  "str_exc (KeyError m) = m"
| "str_exc (ValueError m) = m"
| "str_exc (TypeError m) = m"
| "str_exc (AttributeError m) = m"
| "str_exc (IndexError m) = m"
| "str_exc (FileNotFoundError m) = m"
| "str_exc (OSError m) = m"
| "str_exc (JSONDecodeError m) = m"
| "str_exc (ConnectError m) = m"
| "str_exc (TimeoutException m) = m"
| "str_exc (RequestError m) = m"
| "str_exc (HTTPStatusError c m) = m"
| "str_exc (Exception m) = m"

text \<open>\<open>repr\<close> of a plain string key, which is what \<open>str(KeyError(key))\<close> prints.\<close>

definition repr_key :: "string \<Rightarrow> string" where
  "repr_key k = CHR 0x27 # k @ [CHR 0x27]"

fun type_name :: "json \<Rightarrow> string" where
  "type_name JNull = ''NoneType''"
| "type_name (JBool b) = ''bool''"
| "type_name (JInt i) = ''int''"
| "type_name (JFloat r) = ''float''"
| "type_name (JStr s) = ''str''"
| "type_name (JArr xs) = ''list''"
| "type_name (JObj kvs) = ''dict''"

fun truthy :: "json \<Rightarrow> bool" where
  "truthy JNull = False"
| "truthy (JBool b) = b"
| "truthy (JInt i) = (i \<noteq> 0)"
| "truthy (JFloat r) = (r \<noteq> 0)"
| "truthy (JStr s) = (s \<noteq> [])"
| "truthy (JArr xs) = (xs \<noteq> [])"
| "truthy (JObj kvs) = (kvs \<noteq> [])"

definition no_attribute :: "json \<Rightarrow> string \<Rightarrow> exc" where
  "no_attribute v a =
     AttributeError (repr_key (type_name v) @ '' object has no attribute '' @ repr_key a)"

text \<open>\<open>d.get(k, default)\<close>: only a dict has the method.\<close>

fun py_get :: "json \<Rightarrow> string \<Rightarrow> json \<Rightarrow> exc + json" where
  "py_get (JObj kvs) k dflt = Inr (case map_of kvs k of None \<Rightarrow> dflt | Some v \<Rightarrow> v)"
| "py_get v k dflt = Inl (no_attribute v ''get'')"

text \<open>\<open>d[k]\<close> with a string key.\<close>

fun py_item :: "json \<Rightarrow> string \<Rightarrow> exc + json" where
  "py_item (JObj kvs) k =
     (case map_of kvs k of None \<Rightarrow> Inl (KeyError (repr_key k)) | Some v \<Rightarrow> Inr v)"
| "py_item (JArr xs) k = Inl (TypeError ''list indices must be integers or slices, not str'')"
| "py_item (JStr s) k = Inl (TypeError (''string indices must be integers, not '' @ repr_key ''str''))"
| "py_item v k = Inl (TypeError (repr_key (type_name v) @ '' object is not subscriptable''))"

text \<open>\<open>x[0]\<close>.\<close>

fun py_first :: "json \<Rightarrow> exc + json" where
  "py_first (JArr []) = Inl (IndexError ''list index out of range'')"
| "py_first (JArr (x # xs)) = Inr x"
| "py_first (JStr []) = Inl (IndexError ''string index out of range'')"
| "py_first (JStr (c # cs)) = Inr (JStr [c])"
| "py_first (JObj kvs) = Inl (KeyError ''0'')"
| "py_first v = Inl (TypeError (repr_key (type_name v) @ '' object is not subscriptable''))"

text \<open>\<open>len(x)\<close>.\<close>

fun py_len :: "json \<Rightarrow> exc + nat" where
  "py_len (JArr xs) = Inr (length xs)"
| "py_len (JStr s) = Inr (length s)"
| "py_len (JObj kvs) = Inr (length kvs)"
| "py_len v = Inl (TypeError (''object of type '' @ repr_key (type_name v) @ '' has no len()''))"

text \<open>What a \<open>for\<close> loop over the value visits: a list's items, a dict's keys, a string's characters.\<close>

fun py_iter :: "json \<Rightarrow> exc + json list" where
  "py_iter (JArr xs) = Inr xs"
| "py_iter (JObj kvs) = Inr (map (\<lambda>kv. JStr (fst kv)) kvs)"
| "py_iter (JStr s) = Inr (map (\<lambda>c. JStr [c]) s)"
| "py_iter v = Inl (TypeError (repr_key (type_name v) @ '' object is not iterable''))"

text \<open>
  \<open>name in container\<close> for a string \<open>name\<close>: membership in a list, key of a dict,
  substring of a string.
\<close>

fun py_in :: "string \<Rightarrow> json \<Rightarrow> exc + bool" where
  "py_in s (JArr xs) = Inr (JStr s \<in> set xs)"
| "py_in s (JObj kvs) = Inr (map_of kvs s \<noteq> None)"
| "py_in s (JStr t) = Inr (sublist s t)"
| "py_in s v = Inl (TypeError (''argument of type '' @ repr_key (type_name v) @ '' is not iterable''))"

text \<open>
  The functions of the Python runtime and its standard library that the code calls and
  that are not part of the repository: they are parameters of the model.
  \<open>json_dumps\<close> is \<open>json.dumps(x, indent=2)\<close>; \<open>py_repr\<close> is \<open>str\<close> on a value that is
  not a string; \<open>py_sorted\<close> is \<open>sorted\<close>, which raises when two items do not compare.
\<close>

record pyrt =
  json_loads :: "string \<Rightarrow> exc + json"
  json_dumps :: "json \<Rightarrow> string"
  py_repr :: "json \<Rightarrow> string"
  py_sorted :: "json list \<Rightarrow> exc + json list"

definition py_str :: "pyrt \<Rightarrow> json \<Rightarrow> string" where
  "py_str rt v = (case v of JStr s \<Rightarrow> s | _ \<Rightarrow> py_repr rt v)"

subsection \<open>String methods\<close>

text \<open>
  A character of a string is a code point below 256. These are the ones among them
  that \<open>str.strip()\<close> removes: the ASCII blanks and separators, U+0085 and U+00A0.
\<close>

definition whitespace :: "char list" where
  "whitespace = [CHR 0x09, CHR 0x0A, CHR 0x0B, CHR 0x0C, CHR 0x0D,
                 CHR 0x1C, CHR 0x1D, CHR 0x1E, CHR 0x1F, CHR 0x20,
                 CHR 0x85, CHR 0xA0]"

definition strip_chars :: "char list \<Rightarrow> string \<Rightarrow> string" where
  "strip_chars cs s =
     rev (dropWhile (\<lambda>c. c \<in> set cs) (rev (dropWhile (\<lambda>c. c \<in> set cs) s)))"

definition strip :: "string \<Rightarrow> string" where
  "strip s = strip_chars whitespace s"

definition rstrip_chars :: "char list \<Rightarrow> string \<Rightarrow> string" where
  "rstrip_chars cs s = rev (dropWhile (\<lambda>c. c \<in> set cs) (rev s))"

text \<open>
  \<open>s.split(sep, 1)\<close> when it yields two parts: the text before and after the first
  occurrence of \<open>sep\<close>. \<open>None\<close> when \<open>sep\<close> does not occur (the split has one part, and the
  two-name unpacking of the source raises).
\<close>

fun split_once :: "string \<Rightarrow> string \<Rightarrow> (string \<times> string) option" where
  "split_once sep [] = None"
| "split_once sep (c # cs) =
     (if prefix sep (c # cs) then Some ([], drop (length sep) (c # cs))
      else (case split_once sep cs of
              None \<Rightarrow> None
            | Some (a, b) \<Rightarrow> Some (c # a, b)))"

section \<open>Data tools (src/src/tools/data\_tools.py)\<close>

text \<open>
  As shipped, \<open>data_tools.py\<close> is not a Python program: in \<open>_aggregate_data\<close> (lines 86
  to 90) the filter of a list comprehension is a conditional expression written
  without parentheses,
  \<open>for item in data if item.get(field) is not None if isinstance(item, dict) else item is not None\<close>,
  which the grammar does not admit, so that compiling the module raises \<open>SyntaxError\<close>
  and none of its methods exists at run time. The definitions of this section are not
  the behaviour of the shipped file. They embed the text of the methods
  \<open>_evaluate_condition\<close> and \<open>_filter_data\<close>, which is well-formed on its own, as it
  runs in a copy of the file repaired by parenthesising that one filter.
\<close>

text \<open>
  \<open>DataTools._evaluate_condition\<close> (in the repaired file). The body runs under a bare
  \<open>except\<close> that answers \<open>True\<close>; the only statement that could raise for a string
  condition is the unpacking of the split.
\<close>

definition evaluate_condition :: "pyrt \<Rightarrow> json \<Rightarrow> string \<Rightarrow> bool" where
  "evaluate_condition rt item condition =
     (case item of
        JObj kvs \<Rightarrow>
          (if sublist ''=='' condition then
             (case split_once ''=='' condition of
                None \<Rightarrow> True
              | Some (k, v) \<Rightarrow>
                  (let key = strip k;
                       val = strip_chars [CHR 0x22, CHR 0x27] (strip v)
                   in py_str rt (case map_of kvs key of None \<Rightarrow> JStr [] | Some x \<Rightarrow> x) = val))
           else True)
      | _ \<Rightarrow> True)"

text \<open>\<open>DataTools._filter_data(data, condition=None)\<close> (in the repaired file).\<close>

definition filter_data :: "pyrt \<Rightarrow> json \<Rightarrow> string option \<Rightarrow> json" where
  "filter_data rt data condition =
     (case data of
        JArr items \<Rightarrow>
          (case condition of
             None \<Rightarrow> data
           | Some c \<Rightarrow>
               (if c \<noteq> [] then JArr (filter (\<lambda>item. evaluate_condition rt item c) items)
                else data))
      | _ \<Rightarrow> data)"

section \<open>Helpers (src/src/utils/helpers.py)\<close>

text \<open>
  The loop of \<open>validate_tool_input\<close> over the required fields. \<open>field not in arguments\<close>
  hashes the field: a list or a dict cannot be hashed; any other value that is not a
  string is no key of the argument bag, whose keys are strings.
\<close>

fun check_required :: "json list \<Rightarrow> (string \<times> json) list \<Rightarrow> exc + bool" where
  "check_required [] arguments = Inr True"
| "check_required (JStr f # fs) arguments =
     (if map_of arguments f = None then Inr False else check_required fs arguments)"
| "check_required (JArr xs # fs) arguments = Inl (TypeError (''unhashable type: '' @ repr_key ''list''))"
| "check_required (JObj kvs # fs) arguments = Inl (TypeError (''unhashable type: '' @ repr_key ''dict''))"
| "check_required (v # fs) arguments = Inr False"

definition validate_tool_input :: "string \<Rightarrow> (string \<times> json) list \<Rightarrow> json \<Rightarrow> exc + bool" where
  "validate_tool_input tool_name arguments schema =
     (case py_get schema ''properties'' (JObj []) of
        Inl e \<Rightarrow> Inl e
      | Inr props \<Rightarrow>
          (case py_get props ''required'' (JArr []) of
             Inl e \<Rightarrow> Inl e
           | Inr required \<Rightarrow>
               (case py_iter required of
                  Inl e \<Rightarrow> Inl e
                | Inr req \<Rightarrow> check_required req arguments)))"

section \<open>Paths and the file system\<close>

text \<open>
  The file system is a table from locations to nodes, without symbolic links. A location
  is the list of names from the root; the root is \<open>[]\<close>. The table keeps the order
  in which a directory lists its entries.
\<close>

datatype node = File string | Dir

type_synonym filesystem = "(string list \<times> node) list"

text \<open>\<open>s.split(d)\<close> for a one-character separator.\<close>

fun split_on :: "char \<Rightarrow> string \<Rightarrow> string list" where
  "split_on d [] = [[]]"
| "split_on d (c # cs) =
     (if c = d then [] # split_on d cs
      else (case split_on d cs of
              [] \<Rightarrow> [[c]]
            | w # ws \<Rightarrow> (c # w) # ws))"

text \<open>
  A \<open>pathlib\<close> path keeps the names between slashes, without the empty ones and
  without \<open>.\<close>; it keeps \<open>..\<close>. Every path the file tools build is absolute, so a
  path is its list of parts.
\<close>

definition path_parts :: "string \<Rightarrow> string list" where
  "path_parts s = filter (\<lambda>c. c \<noteq> [] \<and> c \<noteq> ''.'') (split_on CHR ''/'' s)"

definition is_absolute :: "string \<Rightarrow> bool" where
  "is_absolute s = (case s of [] \<Rightarrow> False | c # cs \<Rightarrow> c = CHR ''/'')"

text \<open>\<open>base / file_path\<close>: an absolute right operand replaces the base.\<close>

definition join_path :: "string list \<Rightarrow> string \<Rightarrow> string list" where
  "join_path base file_path =
     (if is_absolute file_path then path_parts file_path else base @ path_parts file_path)"

definition str_path :: "string list \<Rightarrow> string" where
  "str_path parts = (if parts = [] then ''/'' else concat (map (\<lambda>c. CHR ''/'' # c) parts))"

definition step :: "string list \<Rightarrow> string \<Rightarrow> string list" where
  "step cur c = (if c = ''..'' then butlast cur else cur @ [c])"

text \<open>
  \<open>Path.resolve()\<close> on an absolute path, where no name is a symbolic link: \<open>..\<close>
  drops the name before it, and stays at the root.
\<close>

definition resolve :: "string list \<Rightarrow> string list" where
  "resolve parts = foldl step [] parts"

text \<open>
  Resolving a path asks the operating system about each of its names; a name that holds
  a NUL character makes that raise \<open>ValueError\<close>.
\<close>

definition has_nul :: "string list \<Rightarrow> bool" where
  "has_nul parts = list_ex (\<lambda>c. CHR 0x00 \<in> set c) parts"

definition null_byte :: exc where
  "null_byte = ValueError ''embedded null byte''"

definition enoent :: "string list \<Rightarrow> exc" where
  "enoent p = FileNotFoundError (''[Errno 2] No such file or directory: '' @ repr_key (str_path p))"

definition enotdir :: "string list \<Rightarrow> exc" where
  "enotdir p = OSError (''[Errno 20] Not a directory: '' @ repr_key (str_path p))"

definition eisdir :: "string list \<Rightarrow> exc" where
  "eisdir p = OSError (''[Errno 21] Is a directory: '' @ repr_key (str_path p))"

definition eexist :: "string list \<Rightarrow> exc" where
  "eexist p = OSError (''[Errno 17] File exists: '' @ repr_key (str_path p))"

fun is_not_found :: "exc \<Rightarrow> bool" where
  "is_not_found (FileNotFoundError m) = True"
| "is_not_found e = False"

text \<open>
  The operating system follows a path name by name: every name it passes through must
  be an existing directory. \<open>locate\<close> gives the location the path \<open>cs\<close> names from the
  directory \<open>cur\<close> (the location may hold nothing); \<open>p\<close> is the whole path, for the
  error message.
\<close>

fun locate :: "filesystem \<Rightarrow> string list \<Rightarrow> string list \<Rightarrow> string list \<Rightarrow> exc + string list" where
  "locate fs p cur [] = Inr cur"
| "locate fs p cur (c # cs) =
     (case map_of fs cur of
        None \<Rightarrow> Inl (enoent p)
      | Some (File t) \<Rightarrow> Inl (enotdir p)
      | Some Dir \<Rightarrow> locate fs p (step cur c) cs)"

definition node_at :: "filesystem \<Rightarrow> string list \<Rightarrow> node option" where
  "node_at fs p = (case locate fs p [] p of Inl e \<Rightarrow> None | Inr l \<Rightarrow> map_of fs l)"

definition path_exists :: "filesystem \<Rightarrow> string list \<Rightarrow> bool" where
  "path_exists fs p = (node_at fs p \<noteq> None)"

definition is_dir :: "filesystem \<Rightarrow> string list \<Rightarrow> bool" where
  "is_dir fs p = (node_at fs p = Some Dir)"

text \<open>\<open>open(p, 'r').read()\<close>.\<close>

definition open_read :: "filesystem \<Rightarrow> string list \<Rightarrow> exc + string" where
  "open_read fs p =
     (case locate fs p [] p of
        Inl e \<Rightarrow> Inl e
      | Inr l \<Rightarrow>
          (case map_of fs l of
             None \<Rightarrow> Inl (enoent p)
           | Some Dir \<Rightarrow> Inl (eisdir p)
           | Some (File t) \<Rightarrow> Inr t))"

text \<open>\<open>open(p, 'w')\<close>: the file is created or emptied; what is written comes after.\<close>

definition open_write :: "filesystem \<Rightarrow> string list \<Rightarrow> exc + string list" where
  "open_write fs p =
     (case locate fs p [] p of
        Inl e \<Rightarrow> Inl e
      | Inr l \<Rightarrow>
          (case map_of fs l of
             Some Dir \<Rightarrow> Inl (eisdir p)
           | Some (File t) \<Rightarrow> Inr l
           | None \<Rightarrow> Inr l))"

text \<open>\<open>os.mkdir(p)\<close>.\<close>

definition os_mkdir :: "filesystem \<Rightarrow> string list \<Rightarrow> exc + filesystem" where
  "os_mkdir fs p =
     (if p = [] then Inl (eexist p)
      else (case locate fs p [] (butlast p) of
              Inl e \<Rightarrow> Inl e
            | Inr cur \<Rightarrow>
                (case map_of fs cur of
                   None \<Rightarrow> Inl (enoent p)
                 | Some (File t) \<Rightarrow> Inl (enotdir p)
                 | Some Dir \<Rightarrow>
                     (if last p = ''..'' then Inl (eexist p)
                      else if map_of fs (cur @ [last p]) \<noteq> None then Inl (eexist p)
                      else Inr (AList.update (cur @ [last p]) Dir fs)))))"

text \<open>
  \<open>Path.mkdir(parents=True, exist_ok=True)\<close>, on the parts of the path in reverse (the
  parent of a path is the tail of its reversed parts): when the system call fails
  because a name on the way is missing, the parent is made first and the call is tried
  once more; any other failure stands unless the path is a directory already. The
  result comes with the file system as the call leaves it, whether it raises or not.
\<close>

fun mkdir_parents :: "filesystem \<Rightarrow> string list \<Rightarrow> (exc + unit) \<times> filesystem" where
  "mkdir_parents fs [] = (if is_dir fs [] then (Inr (), fs) else (Inl (eexist []), fs))"
| "mkdir_parents fs (c # rp) =
     (case os_mkdir fs (rev (c # rp)) of
        Inr fs1 \<Rightarrow> (Inr (), fs1)
      | Inl e \<Rightarrow>
          (if is_not_found e then
             (case mkdir_parents fs rp of
                (Inl e1, fs1) \<Rightarrow> (Inl e1, fs1)
              | (Inr u, fs1) \<Rightarrow>
                  (case os_mkdir fs1 (rev (c # rp)) of
                     Inr fs2 \<Rightarrow> (Inr (), fs2)
                   | Inl e2 \<Rightarrow>
                       (if is_not_found e2 then (Inl e2, fs1)
                        else if is_dir fs1 (rev (c # rp)) then (Inr (), fs1)
                        else (Inl e2, fs1))))
           else if is_dir fs (rev (c # rp)) then (Inr (), fs)
           else (Inl e, fs)))"

section \<open>File tools (src/src/tools/file\_tools.py)\<close>

record FileTools =
  base_path :: "string list"

text \<open>
  \<open>FileTools.__init__(base_path)\<close>, in a process whose working directory is \<open>wd\<close>:
  the base is resolved and created.
\<close>

definition FileTools_init :: "string list \<Rightarrow> filesystem \<Rightarrow> string \<Rightarrow> (exc + FileTools) \<times> filesystem" where
  "FileTools_init wd fs base =
     (if has_nul (join_path wd base) then (Inl null_byte, fs)
      else (let bp = resolve (join_path wd base)
            in (case mkdir_parents fs (rev bp) of
                  (Inl e, fs1) \<Rightarrow> (Inl e, fs1)
                | (Inr u, fs1) \<Rightarrow> (Inr \<lparr>base_path = bp\<rparr>, fs1))))"

definition path_type_error :: "json \<Rightarrow> exc" where
  "path_type_error v =
     TypeError (''unsupported operand type(s) for /: '' @ repr_key ''PosixPath'' @ '' and ''
                @ repr_key (type_name v))"

text \<open>
  The security check of every file tool:
  \<open>str(full_path.resolve()).startswith(str(self.base_path.resolve()))\<close>, for a path
  that resolves (the callers test \<open>has_nul\<close> first).
\<close>

definition within_base :: "FileTools \<Rightarrow> string list \<Rightarrow> bool" where
  "within_base ft full_path =
     prefix (str_path (resolve (base_path ft))) (str_path (resolve full_path))"

text \<open>
  \<open>FileTools.read_file(file_path)\<close>. The handler logs and raises again, so the
  exception that leaves is the one raised. The path is whatever value the caller
  passed; joining a value that is not a string to the base raises.
\<close>

definition read_file :: "FileTools \<Rightarrow> filesystem \<Rightarrow> json \<Rightarrow> exc + string" where
  "read_file ft fs file_path =
     (case file_path of
        JStr fp \<Rightarrow>
          (let full_path = join_path (base_path ft) fp
           in if has_nul full_path then Inl null_byte
              else if \<not> within_base ft full_path then Inl (ValueError ''Path outside allowed directory'')
              else if \<not> path_exists fs full_path then Inl (FileNotFoundError (''File not found: '' @ fp))
              else open_read fs full_path)
      | _ \<Rightarrow> Inl (path_type_error file_path))"

text \<open>
  \<open>FileTools.write_file(file_path, content)\<close>: the result and the file system after
  the call. Content that is not a string fails in \<open>f.write\<close>, after the file was opened
  and so emptied.
\<close>

definition write_file :: "FileTools \<Rightarrow> filesystem \<Rightarrow> json \<Rightarrow> json \<Rightarrow> (exc + string) \<times> filesystem" where
  "write_file ft fs file_path content =
     (case file_path of
        JStr fp \<Rightarrow>
          (let full_path = join_path (base_path ft) fp
           in if has_nul full_path then (Inl null_byte, fs)
              else if \<not> within_base ft full_path then (Inl (ValueError ''Path outside allowed directory''), fs)
              else (case mkdir_parents fs (rev (butlast full_path)) of
                      (Inl e, fs1) \<Rightarrow> (Inl e, fs1)
                    | (Inr u, fs1) \<Rightarrow>
                        (case open_write fs1 full_path of
                           Inl e \<Rightarrow> (Inl e, fs1)
                         | Inr l \<Rightarrow>
                             (case content of
                                JStr t \<Rightarrow>
                                  (Inr (''Successfully wrote to '' @ fp), AList.update l (File t) fs1)
                              | _ \<Rightarrow>
                                  (Inl (TypeError (''write() argument must be str, not '' @ type_name content)),
                                   AList.update l (File []) fs1)))))
      | _ \<Rightarrow> (Inl (path_type_error file_path), fs))"

text \<open>
  \<open>Path.relative_to(base)\<close>: the parts after the base, when the base's parts start the
  path's own (names are compared as written).
\<close>

definition relative_to :: "string list \<Rightarrow> string list \<Rightarrow> exc + string" where
  "relative_to p base =
     (if prefix base p then
        Inr (let r = drop (length base) p
             in if r = [] then ''.'' else tl (str_path r))
      else Inl (ValueError (repr_key (str_path p) @ '' is not in the subpath of '' @ repr_key (str_path base))))"

text \<open>The names a directory lists, in the order of the table.\<close>

definition listdir :: "filesystem \<Rightarrow> string list \<Rightarrow> string list" where
  "listdir fs l = map (\<lambda>kv. last (fst kv)) (filter (\<lambda>kv. fst kv \<noteq> [] \<and> butlast (fst kv) = l) fs)"

text \<open>One round of the loop of \<open>list_files\<close>: the record of one directory entry.\<close>

definition file_info :: "FileTools \<Rightarrow> filesystem \<Rightarrow> string list \<Rightarrow> exc + json" where
  "file_info ft fs item =
     (case relative_to item (base_path ft) of
        Inl e \<Rightarrow> Inl e
      | Inr rel \<Rightarrow>
          Inr (JObj [(''name'', JStr (last item)),
                     (''path'', JStr rel),
                     (''type'', JStr (if is_dir fs item then ''directory'' else ''file'')),
                     (''size'', (case node_at fs item of
                                   Some (File t) \<Rightarrow> JInt (int (length t))
                                 | _ \<Rightarrow> JNull))]))"

fun file_infos :: "FileTools \<Rightarrow> filesystem \<Rightarrow> string list list \<Rightarrow> exc + json list" where
  "file_infos ft fs [] = Inr []"
| "file_infos ft fs (item # items) =
     (case file_info ft fs item of
        Inl e \<Rightarrow> Inl e
      | Inr d \<Rightarrow>
          (case file_infos ft fs items of
             Inl e \<Rightarrow> Inl e
           | Inr ds \<Rightarrow> Inr (d # ds)))"

text \<open>\<open>FileTools.list_files(directory)\<close>.\<close>

definition list_files :: "FileTools \<Rightarrow> filesystem \<Rightarrow> json \<Rightarrow> exc + json" where
  "list_files ft fs directory =
     (case directory of
        JStr d \<Rightarrow>
          (let full_path = join_path (base_path ft) d
           in if has_nul full_path then Inl null_byte
              else if \<not> within_base ft full_path then Inl (ValueError ''Path outside allowed directory'')
              else if \<not> path_exists fs full_path then Inl (FileNotFoundError (''Directory not found: '' @ d))
              else if \<not> is_dir fs full_path then Inl (ValueError (''Path is not a directory: '' @ d))
              else (case locate fs full_path [] full_path of
                      Inl e \<Rightarrow> Inl e
                    | Inr l \<Rightarrow>
                        (case file_infos ft fs (map (\<lambda>n. full_path @ [n]) (listdir fs l)) of
                           Inl e \<Rightarrow> Inl e
                         | Inr ds \<Rightarrow> Inr (JArr ds))))
      | _ \<Rightarrow> Inl (path_type_error directory))"

section \<open>The world outside the process\<close>

text \<open>
  An HTTP request as the code hands it to its \<open>httpx\<close> client: the values are the ones
  the caller gave, whatever their type (\<open>JNull\<close> for an argument that is not passed).
\<close>

record http_request =
  req_verb :: json
  req_url :: json
  req_headers :: json
  req_content :: json
  req_json :: json

text \<open>
  A response: \<open>resp_json\<close> is what \<open>response.json()\<close> gives (it raises on a body that
  is not JSON), \<open>resp_status_text\<close> the message \<open>raise_for_status\<close> gives its error.
\<close>

record http_response =
  status_code :: nat
  resp_headers :: "(string \<times> string) list"
  resp_text :: string
  resp_json :: "exc + json"
  resp_status_text :: string

text \<open>
  The state the server works in: the working directory, the file system, the
  environment variable \<open>LM_STUDIO_URL\<close>, the network (the HTTP client library and the
  hosts behind it: the answer to a request, or the exception the client raises, given
  the requests sent before) and the requests sent so far. Writing to the log is left
  out of the model.
\<close>

record world =
  cwd :: "string list"
  files :: filesystem
  lm_studio_url :: "string option"
  net :: "http_request list \<Rightarrow> http_request \<Rightarrow> exc + http_response"
  sent :: "http_request list"

definition http_send :: "world \<Rightarrow> http_request \<Rightarrow> (exc + http_response) \<times> world" where
  "http_send w req = (net w (sent w) req, w\<lparr>sent := sent w @ [req]\<rparr>)"

text \<open>\<open>client.get(url)\<close> and \<open>client.post(url, json=body)\<close>.\<close>

definition get_request :: "string \<Rightarrow> http_request" where
  "get_request url =
     \<lparr>req_verb = JStr ''GET'', req_url = JStr url, req_headers = JNull,
      req_content = JNull, req_json = JNull\<rparr>"

definition post_request :: "string \<Rightarrow> json \<Rightarrow> http_request" where
  "post_request url body =
     \<lparr>req_verb = JStr ''POST'', req_url = JStr url, req_headers = JNull,
      req_content = JNull, req_json = body\<rparr>"

text \<open>\<open>response.raise_for_status()\<close>: any status outside 2xx raises.\<close>

definition raise_for_status :: "http_response \<Rightarrow> exc + unit" where
  "raise_for_status r =
     (if 200 \<le> status_code r \<and> status_code r < 300 then Inr ()
      else Inl (HTTPStatusError (status_code r) (resp_status_text r)))"

text \<open>Sequencing of steps that may raise: the first exception ends the sequence.\<close>

definition ebind :: "exc + 'a \<Rightarrow> ('a \<Rightarrow> exc + 'b) \<Rightarrow> exc + 'b" where
  "ebind x f = (case x of Inl e \<Rightarrow> Inl e | Inr v \<Rightarrow> f v)"

text \<open>Decimal digits of a number, as an f-string prints it.\<close>

function show_nat :: "nat \<Rightarrow> string" where
  "show_nat n = (if n < 10 then [''0123456789'' ! n] else show_nat (n div 10) @ [''0123456789'' ! (n mod 10)])"
  by pat_completeness auto
termination
  by (relation "measure (\<lambda>n. n)") auto

section \<open>LM Studio tools (src/src/tools/lm\_studio\_tools.py)\<close>

record LMStudioTools =
  base_url :: string

text \<open>\<open>LMStudioTools.__init__(base_url)\<close>, with the value of the environment variable.\<close>

definition LMStudioTools_init :: "string option \<Rightarrow> json \<Rightarrow> exc + LMStudioTools" where
  "LMStudioTools_init env url =
     (case url of
        JNull \<Rightarrow>
          Inr \<lparr>base_url = rstrip_chars ''/'' (case env of None \<Rightarrow> ''http://localhost:1234'' | Some u \<Rightarrow> u)\<rparr>
      | JStr u \<Rightarrow> Inr \<lparr>base_url = rstrip_chars ''/'' u\<rparr>
      | _ \<Rightarrow> Inl (no_attribute url ''rstrip''))"

definition no_models :: exc where
  "no_models = Exception ''No models available in LM Studio''"

text \<open>
  The choice of the default model from the body of the model list, as both
  \<open>generate_text\<close> and \<open>chat_completion\<close> write it:
  \<open>if models_data.get("data") and len(models_data["data"]) > 0:
       model = models_data["data"][0]["id"]
     else: raise Exception("No models available in LM Studio")\<close>.
\<close>

definition first_model_id :: "json \<Rightarrow> exc + json" where
  "first_model_id models_data =
     ebind (py_get models_data ''data'' JNull) (\<lambda>d.
       if \<not> truthy d then Inl no_models
       else ebind (py_item models_data ''data'') (\<lambda>d1.
            ebind (py_len d1) (\<lambda>n.
              if n > 0 then
                ebind (py_item models_data ''data'') (\<lambda>d2.
                ebind (py_first d2) (\<lambda>m. py_item m ''id''))
              else Inl no_models)))"

text \<open>
  The block \<open>if not model: ...\<close>: one GET of the model list, then the choice.
  The status of that response is not looked at.
\<close>

definition default_model :: "LMStudioTools \<Rightarrow> world \<Rightarrow> (exc + json) \<times> world" where
  "default_model lm w =
     (case http_send w (get_request (base_url lm @ ''/v1/models'')) of
        (Inl e, w1) \<Rightarrow> (Inl e, w1)
      | (Inr models_response, w1) \<Rightarrow> (ebind (resp_json models_response) first_model_id, w1))"

definition cannot_connect :: "LMStudioTools \<Rightarrow> exc" where
  "cannot_connect lm =
     Exception (''Cannot connect to LM Studio at '' @ base_url lm @ ''. ''
                @ ''Make sure LM Studio is running with the local server enabled.'')"

text \<open>The shape \<open>generate_text\<close> returns, read from the body of the completion.\<close>

definition completion_result :: "json \<Rightarrow> json \<Rightarrow> exc + json" where
  "completion_result result model =
     ebind (py_get result ''choices'' (JArr [JObj []])) (\<lambda>ch.
     ebind (py_first ch) (\<lambda>c0.
     ebind (py_get c0 ''text'' (JStr [])) (\<lambda>generated_text.
     ebind (py_get result ''usage'' (JObj [])) (\<lambda>usage.
     ebind (py_get result ''choices'' (JArr [JObj []])) (\<lambda>ch1.
     ebind (py_first ch1) (\<lambda>c1.
     ebind (py_get c1 ''finish_reason'' (JStr [])) (\<lambda>finish_reason.
       Inr (JObj [(''text'', generated_text), (''model'', model), (''usage'', usage),
                  (''finish_reason'', finish_reason)]))))))))"

text \<open>The body of the \<open>try\<close> of \<open>generate_text\<close>.\<close>

definition generate_text_try :: "LMStudioTools \<Rightarrow> world \<Rightarrow> json \<Rightarrow> json \<Rightarrow> json \<Rightarrow> json \<Rightarrow> (exc + json) \<times> world" where
  "generate_text_try lm w prompt model max_tokens temperature =
     (case (if \<not> truthy model then default_model lm w else (Inr model, w)) of
        (Inl e, w1) \<Rightarrow> (Inl e, w1)
      | (Inr model1, w1) \<Rightarrow>
          (case http_send w1 (post_request (base_url lm @ ''/v1/completions'')
                               (JObj [(''model'', model1), (''prompt'', prompt),
                                      (''max_tokens'', max_tokens), (''temperature'', temperature)])) of
             (Inl e, w2) \<Rightarrow> (Inl e, w2)
           | (Inr response, w2) \<Rightarrow>
               (ebind (raise_for_status response) (\<lambda>u.
                ebind (resp_json response) (\<lambda>result. completion_result result model1)), w2)))"

text \<open>The \<open>except\<close> clauses of \<open>generate_text\<close>, in their order.\<close>

fun generate_text_except :: "LMStudioTools \<Rightarrow> exc \<Rightarrow> exc" where
  "generate_text_except lm (ConnectError m) = cannot_connect lm"
| "generate_text_except lm (HTTPStatusError c m) = Exception (''LM Studio API error: '' @ show_nat c)"
| "generate_text_except lm e = e"

text \<open>\<open>LMStudioTools.generate_text(prompt, model, max_tokens, temperature)\<close>.\<close>

definition generate_text :: "LMStudioTools \<Rightarrow> world \<Rightarrow> json \<Rightarrow> json \<Rightarrow> json \<Rightarrow> json \<Rightarrow> (exc + json) \<times> world" where
  "generate_text lm w prompt model max_tokens temperature =
     (case generate_text_try lm w prompt model max_tokens temperature of
        (Inl e, w1) \<Rightarrow> (Inl (generate_text_except lm e), w1)
      | (Inr r, w1) \<Rightarrow> (Inr r, w1))"

definition chat_result :: "json \<Rightarrow> json \<Rightarrow> exc + json" where
  "chat_result result model =
     ebind (py_get result ''choices'' (JArr [JObj []])) (\<lambda>ch.
     ebind (py_first ch) (\<lambda>c0.
     ebind (py_get c0 ''message'' (JObj [])) (\<lambda>message.
     ebind (py_get result ''usage'' (JObj [])) (\<lambda>usage.
     ebind (py_get result ''choices'' (JArr [JObj []])) (\<lambda>ch1.
     ebind (py_first ch1) (\<lambda>c1.
     ebind (py_get c1 ''finish_reason'' (JStr [])) (\<lambda>finish_reason.
       Inr (JObj [(''message'', message), (''model'', model), (''usage'', usage),
                  (''finish_reason'', finish_reason)]))))))))"

definition chat_completion_try :: "LMStudioTools \<Rightarrow> world \<Rightarrow> json \<Rightarrow> json \<Rightarrow> json \<Rightarrow> json \<Rightarrow> (exc + json) \<times> world" where
  "chat_completion_try lm w messages model temperature max_tokens =
     (case (if \<not> truthy model then default_model lm w else (Inr model, w)) of
        (Inl e, w1) \<Rightarrow> (Inl e, w1)
      | (Inr model1, w1) \<Rightarrow>
          (case http_send w1 (post_request (base_url lm @ ''/v1/chat/completions'')
                               (JObj [(''model'', model1), (''messages'', messages),
                                      (''temperature'', temperature), (''max_tokens'', max_tokens)])) of
             (Inl e, w2) \<Rightarrow> (Inl e, w2)
           | (Inr response, w2) \<Rightarrow>
               (ebind (raise_for_status response) (\<lambda>u.
                ebind (resp_json response) (\<lambda>result. chat_result result model1)), w2)))"

fun chat_completion_except :: "LMStudioTools \<Rightarrow> exc \<Rightarrow> exc" where
  "chat_completion_except lm (ConnectError m) = cannot_connect lm"
| "chat_completion_except lm e = e"

text \<open>\<open>LMStudioTools.chat_completion(messages, model, temperature, max_tokens)\<close>.\<close>

definition chat_completion :: "LMStudioTools \<Rightarrow> world \<Rightarrow> json \<Rightarrow> json \<Rightarrow> json \<Rightarrow> json \<Rightarrow> (exc + json) \<times> world" where
  "chat_completion lm w messages model temperature max_tokens =
     (case chat_completion_try lm w messages model temperature max_tokens of
        (Inl e, w1) \<Rightarrow> (Inl (chat_completion_except lm e), w1)
      | (Inr r, w1) \<Rightarrow> (Inr r, w1))"

fun list_models_except :: "exc \<Rightarrow> exc" where
  "list_models_except (ConnectError m) = Exception ''Cannot connect to LM Studio. Make sure it's running.''"
| "list_models_except e = e"

text \<open>\<open>LMStudioTools.list_models()\<close>.\<close>

definition list_models :: "LMStudioTools \<Rightarrow> world \<Rightarrow> (exc + json) \<times> world" where
  "list_models lm w =
     (case http_send w (get_request (base_url lm @ ''/v1/models'')) of
        (Inl e, w1) \<Rightarrow> (Inl (list_models_except e), w1)
      | (Inr response, w1) \<Rightarrow>
          (case ebind (raise_for_status response) (\<lambda>u.
                ebind (resp_json response) (\<lambda>models_data. py_get models_data ''data'' (JArr []))) of
             Inl e \<Rightarrow> (Inl (list_models_except e), w1)
           | Inr models \<Rightarrow> (Inr models, w1)))"

text \<open>The comprehension \<open>[m.get("id", "unknown") for m in models]\<close> over the items.\<close>

fun model_ids :: "json list \<Rightarrow> exc + json list" where
  "model_ids [] = Inr []"
| "model_ids (m # ms) =
     ebind (py_get m ''id'' (JStr ''unknown'')) (\<lambda>i.
     ebind (model_ids ms) (\<lambda>is. Inr (i # is)))"

text \<open>
  \<open>LMStudioTools.test_connection()\<close>: whatever is raised while the list is fetched or
  the record is built is caught and becomes the record of a failed connection.
\<close>

definition test_connection :: "LMStudioTools \<Rightarrow> world \<Rightarrow> (exc + json) \<times> world" where
  "test_connection lm w =
     (case list_models lm w of
        (r, w1) \<Rightarrow>
          (case ebind r (\<lambda>models.
                ebind (py_len models) (\<lambda>n.
                ebind (py_iter models) (\<lambda>ms.
                ebind (model_ids ms) (\<lambda>ids.
                  Inr (JObj [(''status'', JStr ''connected''), (''url'', JStr (base_url lm)),
                             (''models_count'', JInt (int n)), (''models'', JArr ids)]))))) of
             Inr status \<Rightarrow> (Inr status, w1)
           | Inl e \<Rightarrow>
               (Inr (JObj [(''status'', JStr ''disconnected''), (''url'', JStr (base_url lm)),
                           (''error'', JStr (str_exc e))]), w1)))"

section \<open>API tools (src/src/tools/api\_tools.py)\<close>

definition upper_char :: "char \<Rightarrow> char" where
  "upper_char c =
     (case map_of (zip ''abcdefghijklmnopqrstuvwxyz'' ''ABCDEFGHIJKLMNOPQRSTUVWXYZ'') c of
        None \<Rightarrow> c
      | Some u \<Rightarrow> u)"

text \<open>\<open>d[k] = v\<close>.\<close>

fun py_setitem :: "json \<Rightarrow> string \<Rightarrow> json \<Rightarrow> exc + json" where
  "py_setitem (JObj kvs) k v = Inr (JObj (AList.update k v kvs))"
| "py_setitem (JArr xs) k v = Inl (TypeError ''list indices must be integers or slices, not str'')"
| "py_setitem d k v = Inl (TypeError (repr_key (type_name d) @ '' object does not support item assignment''))"

text \<open>
  The body of the \<open>try\<close> of \<open>APITools.call_api(url, method, headers, body)\<close>: the
  headers, the body as text or as JSON, the method in upper case, one request, and the
  response as a record whose data is the parsed body, or its text when it does not
  parse.
\<close>

definition call_api_try :: "world \<Rightarrow> json \<Rightarrow> json \<Rightarrow> json \<Rightarrow> json \<Rightarrow> (exc + json) \<times> world" where
  "call_api_try w url verb headers body =
     (case ebind (py_in ''Content-Type'' (if truthy headers then headers else JObj [])) (\<lambda>present.
           ebind (if \<not> present \<and> truthy body
                  then py_setitem (if truthy headers then headers else JObj []) ''Content-Type''
                         (JStr ''application/json'')
                  else Inr (if truthy headers then headers else JObj [])) (\<lambda>request_headers.
           ebind (case verb of
                    JStr m \<Rightarrow> Inr (JStr (map upper_char m))
                  | _ \<Rightarrow> Inl (no_attribute verb ''upper'')) (\<lambda>method_upper.
             Inr \<lparr>req_verb = method_upper, req_url = url, req_headers = request_headers,
                  req_content = (case body of JStr t \<Rightarrow> (if truthy body then body else JNull) | _ \<Rightarrow> JNull),
                  req_json = (case body of JStr t \<Rightarrow> JNull | _ \<Rightarrow> (if truthy body then body else JNull))\<rparr>))) of
        Inl e \<Rightarrow> (Inl e, w)
      | Inr req \<Rightarrow>
          (case http_send w req of
             (Inl e, w1) \<Rightarrow> (Inl e, w1)
           | (Inr response, w1) \<Rightarrow>
               (Inr (JObj [(''status_code'', JInt (int (status_code response))),
                           (''headers'', JObj (map (\<lambda>kv. (fst kv, JStr (snd kv))) (resp_headers response))),
                           (''data'', (case resp_json response of
                                         Inl e \<Rightarrow> JStr (resp_text response)
                                       | Inr d \<Rightarrow> d))]), w1)))"

text \<open>
  The \<open>except\<close> clauses of \<open>call_api\<close>: a timeout first, then any other request error
  (a failed connection is one), everything else as it is.
\<close>

fun call_api_except :: "pyrt \<Rightarrow> json \<Rightarrow> exc \<Rightarrow> exc" where
  "call_api_except rt url (TimeoutException m) = Exception (''Request to '' @ py_str rt url @ '' timed out'')"
| "call_api_except rt url (ConnectError m) = Exception (''Request failed: '' @ m)"
| "call_api_except rt url (RequestError m) = Exception (''Request failed: '' @ m)"
| "call_api_except rt url e = e"

definition call_api :: "pyrt \<Rightarrow> world \<Rightarrow> json \<Rightarrow> json \<Rightarrow> json \<Rightarrow> json \<Rightarrow> (exc + json) \<times> world" where
  "call_api rt w url verb headers body =
     (case call_api_try w url verb headers body of
        (Inl e, w1) \<Rightarrow> (Inl (call_api_except rt url e), w1)
      | (Inr r, w1) \<Rightarrow> (Inr r, w1))"

section \<open>Data processing (src/src/tools/data\_tools.py)\<close>

text \<open>
  The rest of the data tools, again as the text of the methods runs in the repaired
  copy of the file (the shipped file does not compile, see above).
  \<open>DataTools._sort_data(data)\<close> with \<open>key=None\<close> and \<open>reverse=False\<close>:
\<close>

definition sort_data :: "pyrt \<Rightarrow> json \<Rightarrow> exc + json" where
  "sort_data rt data =
     (case data of
        JArr xs \<Rightarrow> ebind (py_sorted rt xs) (\<lambda>ys. Inr (JArr ys))
      | _ \<Rightarrow> Inr data)"

text \<open>
  \<open>DataTools.process_data(data, operation)\<close> as the server calls it, with no keyword
  argument: the filter runs without a condition, and \<open>_transform_data\<close> without a
  mapping returns its data. \<open>_aggregate_data\<close> is the method whose comprehension does
  not parse; with its filter parenthesised, a call without a field does not reach the
  comprehension (\<open>isinstance(data, list) and field\<close> is false) and returns its data.
\<close>

definition process_data_try :: "pyrt \<Rightarrow> json \<Rightarrow> json \<Rightarrow> exc + json" where
  "process_data_try rt data operation =
     ebind (case data of JStr s \<Rightarrow> json_loads rt s | _ \<Rightarrow> Inr data) (\<lambda>parsed_data.
       if operation = JStr ''filter'' then Inr (filter_data rt parsed_data None)
       else if operation = JStr ''sort'' then sort_data rt parsed_data
       else if operation = JStr ''transform'' then Inr parsed_data
       else if operation = JStr ''aggregate'' then Inr parsed_data
       else Inl (ValueError (''Unknown operation: '' @ py_str rt operation)))"

fun process_data_except :: "exc \<Rightarrow> exc" where
  "process_data_except (JSONDecodeError m) = ValueError (''Invalid JSON data: '' @ m)"
| "process_data_except e = e"

definition process_data :: "pyrt \<Rightarrow> json \<Rightarrow> json \<Rightarrow> exc + json" where
  "process_data rt data operation =
     (case process_data_try rt data operation of
        Inl e \<Rightarrow> Inl (process_data_except e)
      | Inr r \<Rightarrow> Inr r)"

section \<open>Configuration (src/src/utils/helpers.py)\<close>

text \<open>
  \<open>load_config(config_path)\<close>: the path is read from the working directory. A file that
  does not exist (\<open>exists()\<close> is also false for a name with a NUL character), one that
  cannot be read and one that does not parse all give the empty configuration.
\<close>

definition load_config :: "pyrt \<Rightarrow> world \<Rightarrow> string \<Rightarrow> json" where
  "load_config rt w config_path =
     (let config_file = join_path (cwd w) config_path
      in if has_nul config_file \<or> \<not> path_exists (files w) config_file then JObj []
         else (case ebind (open_read (files w) config_file) (json_loads rt) of
                 Inl e \<Rightarrow> JObj []
               | Inr c \<Rightarrow> c))"

section \<open>The server (src/src/mcp\_server.py)\<close>

text \<open>
  The attributes of a constructed \<open>MCPServerImpl\<close> that its handlers read: the
  configuration, the file tools, and the LM Studio tools (\<open>None\<close> when the
  configuration does not enable them). The API tools and the data tools hold nothing
  the handlers read.
\<close>

record server =
  config :: json
  file_tools :: FileTools
  lm_studio :: "LMStudioTools option"

text \<open>\<open>MCPServerImpl._is_tool_enabled(tool_name)\<close>.\<close>

definition is_tool_enabled :: "server \<Rightarrow> string \<Rightarrow> exc + bool" where
  "is_tool_enabled srv tool_name =
     ebind (py_get (config srv) ''tools'' (JObj [])) (\<lambda>tools.
     ebind (py_get tools ''enabled'' (JArr [])) (\<lambda>enabled_tools.
       py_in tool_name enabled_tools))"

subsection \<open>The tool descriptors\<close>

record tool =
  t_name :: string
  t_description :: string
  t_inputSchema :: json

definition read_file_tool :: tool where
  "read_file_tool =
     \<lparr>t_name = ''read_file'', t_description = ''Read content from a file'',
      t_inputSchema = JObj
        [(''type'', JStr ''object''),
         (''properties'', JObj
            [(''path'', JObj [(''type'', JStr ''string''),
                              (''description'', JStr ''Path to the file to read'')])]),
         (''required'', JArr [JStr ''path''])]\<rparr>"

definition write_file_tool :: tool where
  "write_file_tool =
     \<lparr>t_name = ''write_file'', t_description = ''Write content to a file'',
      t_inputSchema = JObj
        [(''type'', JStr ''object''),
         (''properties'', JObj
            [(''path'', JObj [(''type'', JStr ''string''),
                              (''description'', JStr ''Path to the file to write'')]),
             (''content'', JObj [(''type'', JStr ''string''),
                                 (''description'', JStr ''Content to write to the file'')])]),
         (''required'', JArr [JStr ''path'', JStr ''content''])]\<rparr>"

definition list_files_tool :: tool where
  "list_files_tool =
     \<lparr>t_name = ''list_files'', t_description = ''List files in a directory'',
      t_inputSchema = JObj
        [(''type'', JStr ''object''),
         (''properties'', JObj
            [(''directory'', JObj [(''type'', JStr ''string''),
                                   (''description'', JStr ''Directory path to list'')])]),
         (''required'', JArr [JStr ''directory''])]\<rparr>"

definition call_api_tool :: tool where
  "call_api_tool =
     \<lparr>t_name = ''call_api'', t_description = ''Make an HTTP API call'',
      t_inputSchema = JObj
        [(''type'', JStr ''object''),
         (''properties'', JObj
            [(''url'', JObj [(''type'', JStr ''string''),
                             (''description'', JStr ''API endpoint URL'')]),
             (''method'', JObj [(''type'', JStr ''string''),
                                (''enum'', JArr [JStr ''GET'', JStr ''POST'', JStr ''PUT'', JStr ''DELETE'']),
                                (''description'', JStr ''HTTP method'')]),
             (''headers'', JObj [(''type'', JStr ''object''),
                                 (''description'', JStr ''HTTP headers'')]),
             (''body'', JObj [(''type'', JStr ''object''),
                              (''description'', JStr ''Request body'')])]),
         (''required'', JArr [JStr ''url'', JStr ''method''])]\<rparr>"

definition process_data_tool :: tool where
  "process_data_tool =
     \<lparr>t_name = ''process_data'', t_description = ''Process and transform data'',
      t_inputSchema = JObj
        [(''type'', JStr ''object''),
         (''properties'', JObj
            [(''data'', JObj [(''type'', JStr ''string''),
                              (''description'', JStr ''Data to process (JSON string)'')]),
             (''operation'', JObj [(''type'', JStr ''string''),
                                   (''enum'', JArr [JStr ''filter'', JStr ''sort'', JStr ''transform'',
                                                    JStr ''aggregate'']),
                                   (''description'', JStr ''Operation to perform'')])]),
         (''required'', JArr [JStr ''data'', JStr ''operation''])]\<rparr>"

definition lm_studio_generate_tool :: tool where
  "lm_studio_generate_tool =
     \<lparr>t_name = ''lm_studio_generate'', t_description = ''Generate text using LM Studio local LLM'',
      t_inputSchema = JObj
        [(''type'', JStr ''object''),
         (''properties'', JObj
            [(''prompt'', JObj [(''type'', JStr ''string''),
                                (''description'', JStr ''Input prompt for text generation'')]),
             (''model'', JObj [(''type'', JStr ''string''),
                               (''description'', JStr ''Model name (optional, uses default if not specified)'')]),
             (''max_tokens'', JObj [(''type'', JStr ''integer''),
                                    (''description'', JStr ''Maximum tokens to generate''),
                                    (''default'', JInt 100)]),
             (''temperature'', JObj [(''type'', JStr ''number''),
                                     (''description'', JStr ''Sampling temperature (0.0-1.0)''),
                                     (''default'', JFloat (7 / 10))])]),
         (''required'', JArr [JStr ''prompt''])]\<rparr>"

definition lm_studio_chat_tool :: tool where
  "lm_studio_chat_tool =
     \<lparr>t_name = ''lm_studio_chat'', t_description = ''Chat completion using LM Studio local LLM'',
      t_inputSchema = JObj
        [(''type'', JStr ''object''),
         (''properties'', JObj
            [(''messages'', JObj
                [(''type'', JStr ''array''),
                 (''description'', JStr (''List of messages with '' @ repr_key ''role'' @ '' and ''
                                         @ repr_key ''content'')),
                 (''items'', JObj
                    [(''type'', JStr ''object''),
                     (''properties'', JObj
                        [(''role'', JObj [(''type'', JStr ''string''),
                                          (''enum'', JArr [JStr ''user'', JStr ''assistant'', JStr ''system''])]),
                         (''content'', JObj [(''type'', JStr ''string'')])]),
                     (''required'', JArr [JStr ''role'', JStr ''content''])])]),
             (''model'', JObj [(''type'', JStr ''string''),
                               (''description'', JStr ''Model name (optional)'')]),
             (''temperature'', JObj [(''type'', JStr ''number''),
                                     (''description'', JStr ''Sampling temperature''),
                                     (''default'', JFloat (7 / 10))]),
             (''max_tokens'', JObj [(''type'', JStr ''integer''),
                                    (''description'', JStr ''Maximum tokens to generate''),
                                    (''default'', JInt 500)])]),
         (''required'', JArr [JStr ''messages''])]\<rparr>"

definition lm_studio_list_models_tool :: tool where
  "lm_studio_list_models_tool =
     \<lparr>t_name = ''lm_studio_list_models'', t_description = ''List available models in LM Studio'',
      t_inputSchema = JObj [(''type'', JStr ''object''), (''properties'', JObj [])]\<rparr>"

definition lm_studio_test_connection_tool :: tool where
  "lm_studio_test_connection_tool =
     \<lparr>t_name = ''lm_studio_test_connection'', t_description = ''Test connection to LM Studio'',
      t_inputSchema = JObj [(''type'', JStr ''object''), (''properties'', JObj [])]\<rparr>"

text \<open>
  The descriptors in the order \<open>list_tools\<close> appends them; the flag marks the ones
  whose test starts with \<open>self.lm_studio and\<close>.
\<close>

definition catalogue :: "(bool \<times> tool) list" where
  "catalogue =
     [(False, read_file_tool), (False, write_file_tool), (False, list_files_tool),
      (False, call_api_tool), (False, process_data_tool),
      (True, lm_studio_generate_tool), (True, lm_studio_chat_tool),
      (True, lm_studio_list_models_tool), (True, lm_studio_test_connection_tool)]"

text \<open>
  One \<open>if ...: tools.append(Tool(...))\<close> of \<open>list_tools\<close>, and the function itself: the
  tests run in order, and the first that raises ends the listing.
\<close>

fun append_enabled :: "server \<Rightarrow> tool list \<Rightarrow> (bool \<times> tool) list \<Rightarrow> exc + tool list" where
  "append_enabled srv tools [] = Inr tools"
| "append_enabled srv tools ((needs_lm, t) # rest) =
     (if needs_lm \<and> lm_studio srv = None then append_enabled srv tools rest
      else ebind (is_tool_enabled srv (t_name t)) (\<lambda>b.
             append_enabled srv (if b then tools @ [t] else tools) rest))"

definition list_tools :: "server \<Rightarrow> exc + tool list" where
  "list_tools srv = append_enabled srv [] catalogue"

subsection \<open>Resources\<close>

record resource =
  r_uri :: string
  r_name :: string
  r_description :: string
  r_mimeType :: string

definition list_resources :: "pyrt \<Rightarrow> server \<Rightarrow> exc + resource list" where
  "list_resources rt srv =
     ebind (py_get (config srv) ''resources'' (JObj [])) (\<lambda>r.
     ebind (py_get r ''enabled'' (JBool False)) (\<lambda>enabled.
       if truthy enabled then
         ebind (py_get (config srv) ''resources'' (JObj [])) (\<lambda>r1.
         ebind (py_get r1 ''base_path'' (JStr ''./data'')) (\<lambda>bp.
           Inr [\<lparr>r_uri = ''file://'' @ py_str rt bp, r_name = ''Data Directory'',
                 r_description = ''Access to data files'', r_mimeType = ''application/json''\<rparr>]))
       else Inr []))"

subsection \<open>The dispatch handler\<close>

text \<open>
  The result of a call is a list of dicts: \<open>[{"text": t}]\<close> on success and
  \<open>[{"text": "Error: ...", "isError": True}]\<close> from the handler's \<open>except\<close>.
\<close>

definition text_entry :: "string \<Rightarrow> json list" where
  "text_entry t = [JObj [(''text'', JStr t)]]"

definition error_entry :: "exc \<Rightarrow> json list" where
  "error_entry e = [JObj [(''text'', JStr (''Error: '' @ str_exc e)), (''isError'', JBool True)]]"

text \<open>\<open>arguments.get(k, default)\<close> on the argument bag.\<close>

definition arg_get :: "(string \<times> json) list \<Rightarrow> string \<Rightarrow> json \<Rightarrow> json" where
  "arg_get arguments k dflt = (case map_of arguments k of None \<Rightarrow> dflt | Some v \<Rightarrow> v)"

text \<open>
  The branches of \<open>call_tool\<close>, one definition each. The arguments of a backend call
  are evaluated, in order, before the call.
\<close>

definition tool_read_file :: "server \<Rightarrow> world \<Rightarrow> (string \<times> json) list \<Rightarrow> (exc + json list) \<times> world" where
  "tool_read_file srv w arguments =
     (ebind (py_item (JObj arguments) ''path'') (\<lambda>p.
      ebind (read_file (file_tools srv) (files w) p) (\<lambda>result.
        Inr (text_entry result))), w)"

definition tool_write_file :: "server \<Rightarrow> world \<Rightarrow> (string \<times> json) list \<Rightarrow> (exc + json list) \<times> world" where
  "tool_write_file srv w arguments =
     (case ebind (py_item (JObj arguments) ''path'') (\<lambda>p.
           ebind (py_item (JObj arguments) ''content'') (\<lambda>c. Inr (p, c))) of
        Inl e \<Rightarrow> (Inl e, w)
      | Inr (p, c) \<Rightarrow>
          (case write_file (file_tools srv) (files w) p c of
             (Inl e, fs1) \<Rightarrow> (Inl e, w\<lparr>files := fs1\<rparr>)
           | (Inr result, fs1) \<Rightarrow>
               (Inr (text_entry (''File written successfully: '' @ result)), w\<lparr>files := fs1\<rparr>)))"

definition tool_list_files :: "server \<Rightarrow> pyrt \<Rightarrow> world \<Rightarrow> (string \<times> json) list \<Rightarrow> (exc + json list) \<times> world" where
  "tool_list_files srv rt w arguments =
     (ebind (py_item (JObj arguments) ''directory'') (\<lambda>d.
      ebind (list_files (file_tools srv) (files w) d) (\<lambda>result.
        Inr (text_entry (json_dumps rt result)))), w)"

definition tool_call_api :: "pyrt \<Rightarrow> world \<Rightarrow> (string \<times> json) list \<Rightarrow> (exc + json list) \<times> world" where
  "tool_call_api rt w arguments =
     (case py_item (JObj arguments) ''url'' of
        Inl e \<Rightarrow> (Inl e, w)
      | Inr url \<Rightarrow>
          (case call_api rt w url (arg_get arguments ''method'' (JStr ''GET''))
                  (arg_get arguments ''headers'' (JObj [])) (arg_get arguments ''body'' JNull) of
             (Inl e, w1) \<Rightarrow> (Inl e, w1)
           | (Inr result, w1) \<Rightarrow> (Inr (text_entry (json_dumps rt result)), w1)))"

definition tool_process_data :: "pyrt \<Rightarrow> world \<Rightarrow> (string \<times> json) list \<Rightarrow> (exc + json list) \<times> world" where
  "tool_process_data rt w arguments =
     (ebind (py_item (JObj arguments) ''data'') (\<lambda>d.
      ebind (py_item (JObj arguments) ''operation'') (\<lambda>operation.
      ebind (process_data rt d operation) (\<lambda>result.
        Inr (text_entry (json_dumps rt result))))), w)"

text \<open>
  The text of a generation:
  \<open>f"Generated text:\n{result['text']}\n\nModel: {result['model']}\nTokens used:
  {result.get('usage', {}).get('total_tokens', 'N/A')}"\<close>.
\<close>

definition generated_text_entry :: "pyrt \<Rightarrow> json \<Rightarrow> exc + json list" where
  "generated_text_entry rt result =
     ebind (py_item result ''text'') (\<lambda>t.
     ebind (py_item result ''model'') (\<lambda>m.
     ebind (py_get result ''usage'' (JObj [])) (\<lambda>usage.
     ebind (py_get usage ''total_tokens'' (JStr ''N/A'')) (\<lambda>tokens.
       Inr (text_entry (''Generated text:'' @ [CHR 0x0A] @ py_str rt t @ [CHR 0x0A, CHR 0x0A]
                        @ ''Model: '' @ py_str rt m @ [CHR 0x0A]
                        @ ''Tokens used: '' @ py_str rt tokens))))))"

definition tool_lm_studio_generate :: "LMStudioTools \<Rightarrow> pyrt \<Rightarrow> world \<Rightarrow> (string \<times> json) list \<Rightarrow> (exc + json list) \<times> world" where
  "tool_lm_studio_generate lm rt w arguments =
     (case py_item (JObj arguments) ''prompt'' of
        Inl e \<Rightarrow> (Inl e, w)
      | Inr prompt \<Rightarrow>
          (case generate_text lm w prompt (arg_get arguments ''model'' JNull)
                  (arg_get arguments ''max_tokens'' (JInt 100))
                  (arg_get arguments ''temperature'' (JFloat (7 / 10))) of
             (Inl e, w1) \<Rightarrow> (Inl e, w1)
           | (Inr result, w1) \<Rightarrow> (generated_text_entry rt result, w1)))"

text \<open>
  \<open>message = result.get("message", {})\<close> and
  \<open>f"Assistant: {message.get('content', '')}\n\nModel: {result.get('model', 'N/A')}"\<close>.
\<close>

definition chat_text_entry :: "pyrt \<Rightarrow> json \<Rightarrow> exc + json list" where
  "chat_text_entry rt result =
     ebind (py_get result ''message'' (JObj [])) (\<lambda>message.
     ebind (py_get message ''content'' (JStr [])) (\<lambda>c.
     ebind (py_get result ''model'' (JStr ''N/A'')) (\<lambda>m.
       Inr (text_entry (''Assistant: '' @ py_str rt c @ [CHR 0x0A, CHR 0x0A]
                        @ ''Model: '' @ py_str rt m)))))"

definition tool_lm_studio_chat :: "LMStudioTools \<Rightarrow> pyrt \<Rightarrow> world \<Rightarrow> (string \<times> json) list \<Rightarrow> (exc + json list) \<times> world" where
  "tool_lm_studio_chat lm rt w arguments =
     (case py_item (JObj arguments) ''messages'' of
        Inl e \<Rightarrow> (Inl e, w)
      | Inr messages \<Rightarrow>
          (case chat_completion lm w messages (arg_get arguments ''model'' JNull)
                  (arg_get arguments ''temperature'' (JFloat (7 / 10)))
                  (arg_get arguments ''max_tokens'' (JInt 500)) of
             (Inl e, w1) \<Rightarrow> (Inl e, w1)
           | (Inr result, w1) \<Rightarrow> (chat_text_entry rt result, w1)))"

definition tool_lm_studio_list_models :: "LMStudioTools \<Rightarrow> pyrt \<Rightarrow> world \<Rightarrow> (exc + json list) \<times> world" where
  "tool_lm_studio_list_models lm rt w =
     (case list_models lm w of
        (Inl e, w1) \<Rightarrow> (Inl e, w1)
      | (Inr models, w1) \<Rightarrow>
          (ebind (py_iter models) (\<lambda>ms.
           ebind (model_ids ms) (\<lambda>model_list.
             Inr (text_entry (''Available models in LM Studio:'' @ [CHR 0x0A]
                              @ json_dumps rt (JArr model_list))))), w1))"

definition tool_lm_studio_test_connection :: "LMStudioTools \<Rightarrow> pyrt \<Rightarrow> world \<Rightarrow> (exc + json list) \<times> world" where
  "tool_lm_studio_test_connection lm rt w =
     (case test_connection lm w of
        (Inl e, w1) \<Rightarrow> (Inl e, w1)
      | (Inr status, w1) \<Rightarrow> (Inr (text_entry (json_dumps rt status)), w1))"

text \<open>
  The body of the \<open>try\<close> of \<open>call_tool(name, arguments)\<close>: the chain of tests on the
  name, in the order of the source. The four LM Studio branches also test
  \<open>self.lm_studio\<close>; a name no branch takes raises the error of an unknown tool.
\<close>

definition call_tool_try :: "server \<Rightarrow> pyrt \<Rightarrow> world \<Rightarrow> string \<Rightarrow> (string \<times> json) list \<Rightarrow> (exc + json list) \<times> world" where
  "call_tool_try srv rt w name arguments =
     (if name = ''read_file'' then tool_read_file srv w arguments
      else if name = ''write_file'' then tool_write_file srv w arguments
      else if name = ''list_files'' then tool_list_files srv rt w arguments
      else if name = ''call_api'' then tool_call_api rt w arguments
      else if name = ''process_data'' then tool_process_data rt w arguments
      else if name = ''lm_studio_generate'' \<and> lm_studio srv \<noteq> None
        then tool_lm_studio_generate (the (lm_studio srv)) rt w arguments
      else if name = ''lm_studio_chat'' \<and> lm_studio srv \<noteq> None
        then tool_lm_studio_chat (the (lm_studio srv)) rt w arguments
      else if name = ''lm_studio_list_models'' \<and> lm_studio srv \<noteq> None
        then tool_lm_studio_list_models (the (lm_studio srv)) rt w
      else if name = ''lm_studio_test_connection'' \<and> lm_studio srv \<noteq> None
        then tool_lm_studio_test_connection (the (lm_studio srv)) rt w
      else (Inl (ValueError (''Unknown tool: '' @ name)), w))"

text \<open>
  \<open>call_tool\<close>: \<open>except Exception as e\<close> turns whatever the body raised into the error
  entry. The result keeps the sum type of everything that may raise, so that "it
  returns" is a statement about the function and not about its type.
\<close>

definition call_tool :: "server \<Rightarrow> pyrt \<Rightarrow> world \<Rightarrow> string \<Rightarrow> (string \<times> json) list \<Rightarrow> (exc + json list) \<times> world" where
  "call_tool srv rt w name arguments =
     (case call_tool_try srv rt w name arguments of
        (Inl e, w1) \<Rightarrow> (Inr (error_entry e), w1)
      | (Inr r, w1) \<Rightarrow> (Inr r, w1))"

section \<open>Concrete inputs\<close>

text \<open>
  A runtime for the examples: \<open>json.loads\<close> knows one document and rejects every other
  text, \<open>json.dumps\<close> and \<open>str\<close> print a placeholder, and \<open>sorted\<close> leaves its list as
  it is.
\<close>

definition rt0 :: pyrt where
  "rt0 = \<lparr>json_loads = (\<lambda>s. if s = ''[1, 2]'' then Inr (JArr [JInt 1, JInt 2])
                             else Inl (JSONDecodeError ''Expecting value: line 1 column 1 (char 0)'')),
          json_dumps = (\<lambda>v. ''<json>''),
          py_repr = (\<lambda>v. ''<object>''),
          py_sorted = (\<lambda>xs. Inr xs)\<rparr>"

text \<open>
  A file system with the directory \<open>/srv/data\<close>, in it a configuration file that
  is not JSON, and beside it \<open>/srv/data2\<close>; a world
  whose working directory is \<open>/srv/data\<close> and whose network refuses every connection.
\<close>

definition fs0 :: filesystem where
  "fs0 = [([], Dir),
          ([''srv''], Dir),
          ([''srv'', ''data''], Dir),
          ([''srv'', ''data'', ''notes.txt''], File ''hello''),
          ([''srv'', ''data'', ''config''], Dir),
          ([''srv'', ''data'', ''config'', ''mcp_config.json''], File ''{tools:''),
          ([''srv'', ''data2''], Dir),
          ([''srv'', ''data2'', ''secret.txt''], File ''secret'')]"

definition w0 :: world where
  "w0 = \<lparr>cwd = [''srv'', ''data''], files = fs0, lm_studio_url = None,
         net = (\<lambda>h r. Inl (ConnectError ''All connection attempts failed'')), sent = []\<rparr>"

text \<open>
  A server whose configuration enables the one tool \<open>read_file\<close>, with its file tools
  on \<open>/srv/data\<close> and without the LM Studio tools.
\<close>

definition srv0 :: server where
  "srv0 = \<lparr>config = JObj [(''tools'', JObj [(''enabled'', JArr [JStr ''read_file''])])],
           file_tools = \<lparr>base_path = [''srv'', ''data'']\<rparr>,
           lm_studio = None\<rparr>"

text \<open>
  The LM Studio tools on the default address, and a world whose gateway lists the two
  models \<open>m1\<close> and \<open>m2\<close> and answers every completion request with one choice; no other
  host is reachable.
\<close>

definition lm0 :: LMStudioTools where
  "lm0 = \<lparr>base_url = ''http://localhost:1234''\<rparr>"

definition models_response0 :: http_response where
  "models_response0 =
     \<lparr>status_code = 200, resp_headers = [(''content-type'', ''application/json'')],
      resp_text = ''(the model list)'',
      resp_json = Inr (JObj [(''data'', JArr [JObj [(''id'', JStr ''m1'')], JObj [(''id'', JStr ''m2'')]])]),
      resp_status_text = []\<rparr>"

definition completion_response0 :: http_response where
  "completion_response0 =
     \<lparr>status_code = 200, resp_headers = [(''content-type'', ''application/json'')],
      resp_text = ''(the completion)'',
      resp_json = Inr (JObj [(''choices'', JArr [JObj [(''text'', JStr ''Hello''),
                                                       (''finish_reason'', JStr ''stop'')]]),
                             (''usage'', JObj [(''total_tokens'', JInt 5)])]),
      resp_status_text = []\<rparr>"

definition w1 :: world where
  "w1 = \<lparr>cwd = [''srv'', ''data''], files = fs0, lm_studio_url = None,
         net = (\<lambda>h r. if req_url r = JStr ''http://localhost:1234/v1/models'' then Inr models_response0
                       else if req_url r = JStr ''http://localhost:1234/v1/completions''
                         then Inr completion_response0
                       else Inl (ConnectError ''All connection attempts failed'')),
         sent = []\<rparr>"

text \<open>The same world with a gateway that has no model loaded.\<close>

definition w2 :: world where
  "w2 = \<lparr>cwd = [''srv'', ''data''], files = fs0, lm_studio_url = None,
         net = (\<lambda>h r. if req_url r = JStr ''http://localhost:1234/v1/models''
                         then Inr (models_response0\<lparr>resp_json := Inr (JObj [(''data'', JArr [])])\<rparr>)
                       else Inr completion_response0),
         sent = []\<rparr>"

text \<open>A server like the one above whose configuration enables \<open>read_file\<close> and \<open>call_api\<close>.\<close>

definition srv1 :: server where
  "srv1 = \<lparr>config = JObj [(''tools'', JObj [(''enabled'', JArr [JStr ''read_file'', JStr ''call_api''])])],
           file_tools = \<lparr>base_path = [''srv'', ''data'']\<rparr>,
           lm_studio = None\<rparr>"

section \<open>Properties\<close>

lemma ebind_Inl [simp]: "ebind (Inl e) f = Inl e"
  by (simp add: ebind_def)

lemma ebind_Inr [simp]: "ebind (Inr v) f = f v"
  by (simp add: ebind_def)

lemmas tool_defs =
  read_file_tool_def write_file_tool_def list_files_tool_def call_api_tool_def
  process_data_tool_def lm_studio_generate_tool_def lm_studio_chat_tool_def
  lm_studio_list_models_tool_def lm_studio_test_connection_tool_def

lemma evaluate_condition_no_eq:
  "\<not> sublist ''=='' c \<Longrightarrow> evaluate_condition rt item c"
  by (simp add: evaluate_condition_def split: json.split)

text \<open>
  The text of \<open>_evaluate_condition\<close> and \<open>_filter_data\<close>, in the repaired file (claim
  C8 is about them; the shipped module does not compile, so as shipped no filter
  runs). A condition that does not contain \<open>==\<close> is one the evaluator cannot parse: it
  answers true for every item, and the filter returns its data, a list or not,
  unchanged.
\<close>

lemma filter_data_without_eq:
  assumes "\<not> sublist ''=='' c"
  shows "evaluate_condition rt item c \<and> filter_data rt (JArr items) (Some c) = JArr items
         \<and> filter_data rt data (Some c) = data"
proof -
  have ev: "\<And>i. evaluate_condition rt i c"
    using assms by (rule evaluate_condition_no_eq)
  have "filter (\<lambda>i. evaluate_condition rt i c) xs = xs" for xs
    by (simp add: ev)
  then show ?thesis
    by (simp add: ev filter_data_def split: json.split)
qed

lemma filter_data_without_eq_example:
  "filter_data rt0 (JArr [JObj [(''age'', JInt 1)], JInt 7]) (Some ''age > 3'')
     = JArr [JObj [(''age'', JInt 1)], JInt 7]"
  using filter_data_without_eq [of "''age > 3''" rt0 "JInt 0" "[JObj [(''age'', JInt 1)], JInt 7]" JNull]
  by (simp add: sublist_code)

text \<open>
  Claim C9. \<open>validate_tool_input\<close> reads the required fields at
  \<open>schema["properties"]["required"]\<close>. A schema whose properties have no entry named
  \<open>required\<close> (the list sits at the top level, as in every descriptor of the server)
  therefore has no required field for it, and every argument bag is accepted.
\<close>

theorem C9_validate_tool_input_accepts_all:
  assumes "py_get schema ''properties'' (JObj []) = Inr (JObj props)"
    and "map_of props ''required'' = None"
  shows "validate_tool_input tool_name arguments schema = Inr True"
  using assms by (simp add: validate_tool_input_def)

text \<open>
  For the descriptor of \<open>read_file\<close>, whose schema requires \<open>path\<close>: the empty argument
  bag is accepted.
\<close>

theorem C9_witness:
  "py_get (t_inputSchema read_file_tool) ''properties'' (JObj [])
     = Inr (JObj [(''path'', JObj [(''type'', JStr ''string''),
                                   (''description'', JStr ''Path to the file to read'')])])
   \<and> py_get (t_inputSchema read_file_tool) ''required'' (JArr []) = Inr (JArr [JStr ''path''])
   \<and> validate_tool_input ''read_file'' [] (t_inputSchema read_file_tool) = Inr True"
  using C9_validate_tool_input_accepts_all
          [of "t_inputSchema read_file_tool"
              "[(''path'', JObj [(''type'', JStr ''string''),
                                 (''description'', JStr ''Path to the file to read'')])]"
              "''read_file''" "[]"]
  by (simp add: read_file_tool_def)

text \<open>The same for each of the nine descriptors of the server.\<close>

lemma validate_tool_input_catalogue:
  "(b, t) \<in> set catalogue \<Longrightarrow> validate_tool_input n a (t_inputSchema t) = Inr True"
  by (auto simp: catalogue_def validate_tool_input_def tool_defs)

text \<open>
  Claim C10. On a server built without the LM Studio tools, a call of one of the four
  LM Studio names falls through to the last branch of the handler: the result is the
  single error entry of an unknown tool, the same a name outside the catalogue gets,
  and the world is untouched.
\<close>

theorem C10_disabled_inference_is_unknown_tool:
  assumes "lm_studio srv = None"
    and "name \<in> set [''lm_studio_generate'', ''lm_studio_chat'', ''lm_studio_list_models'',
                      ''lm_studio_test_connection'']
         \<or> name \<notin> set (map (\<lambda>bt. t_name (snd bt)) catalogue)"
  shows "call_tool srv rt w name arguments
           = (Inr [JObj [(''text'', JStr (''Error: Unknown tool: '' @ name)), (''isError'', JBool True)]], w)"
  using assms
  by (auto simp: call_tool_def call_tool_try_def error_entry_def catalogue_def tool_defs)

theorem C10_witness:
  "lm_studio srv0 = None
   \<and> call_tool srv0 rt0 w0 ''lm_studio_generate'' [(''prompt'', JStr ''hi'')]
       = (Inr [JObj [(''text'', JStr ''Error: Unknown tool: lm_studio_generate''),
                     (''isError'', JBool True)]], w0)"
  using C10_disabled_inference_is_unknown_tool
          [of srv0 "''lm_studio_generate''" rt0 w0 "[(''prompt'', JStr ''hi'')]"]
  by (simp add: srv0_def)


subsection \<open>A missing or malformed configuration\<close>

lemma locate_snoc:
  "locate fs p cur (cs @ [c]) =
     (case locate fs p cur cs of
        Inl e \<Rightarrow> Inl e
      | Inr l \<Rightarrow> (case map_of fs l of
                    None \<Rightarrow> Inl (enoent p)
                  | Some (File t) \<Rightarrow> Inl (enotdir p)
                  | Some Dir \<Rightarrow> Inr (step l c)))"
  by (induction cs arbitrary: cur) (auto split: option.splits node.splits)

lemma os_mkdir_existing:
  assumes "is_dir fs p"
  shows "\<exists>m. os_mkdir fs p = Inl (OSError m)"
proof (cases p rule: rev_cases)
  case Nil
  then show ?thesis by (simp add: os_mkdir_def eexist_def)
next
  case (snoc cs c)
  from assms snoc show ?thesis
    by (auto simp: os_mkdir_def is_dir_def node_at_def locate_snoc eexist_def step_def
        split: sum.splits option.splits node.splits if_splits)
qed

lemma mkdir_parents_existing:
  assumes "is_dir fs p"
  shows "mkdir_parents fs (rev p) = (Inr (), fs)"
proof (cases "rev p")
  case Nil
  with assms show ?thesis by simp
next
  case (Cons c rp)
  then have p: "rev (c # rp) = p" by (metis rev_rev_ident)
  from os_mkdir_existing [OF assms] obtain m where "os_mkdir fs p = Inl (OSError m)" ..
  with Cons p assms show ?thesis by simp
qed

lemma join_path_dot: "join_path wd ''.'' = wd"
  by (simp add: join_path_def is_absolute_def path_parts_def)

lemma FileTools_init_existing:
  assumes "is_dir fs (resolve wd)" and "\<not> has_nul wd"
  shows "FileTools_init wd fs ''.'' = (Inr \<lparr>base_path = resolve wd\<rparr>, fs)"
  using mkdir_parents_existing [OF assms(1)] assms(2)
  by (simp add: FileTools_init_def join_path_dot)

text \<open>
  The fail-closed logic of claim C7, without the construction of the server (the
  module that defines the server imports \<open>data_tools.py\<close>, which does not compile as
  shipped). A configuration file that is absent, or holds text that \<open>json.loads\<close>
  rejects, loads as the empty configuration; and on a server whose configuration is
  empty the enablement check answers false for every tool name, and the listings of
  tools and of resources are empty.
\<close>

lemma load_config_fails:
  assumes "\<not> path_exists (files w) (join_path (cwd w) p)
           \<or> (\<exists>s m. open_read (files w) (join_path (cwd w) p) = Inr s
                     \<and> json_loads rt s = Inl (JSONDecodeError m))"
  shows "load_config rt w p = JObj []"
  using assms by (auto simp: load_config_def Let_def)

lemma empty_config_exposes_nothing:
  assumes "config srv = JObj []"
  shows "is_tool_enabled srv tool_name = Inr False
         \<and> list_tools srv = Inr []
         \<and> list_resources rt srv = Inr []"
proof -
  have en: "is_tool_enabled srv n = Inr False" for n
    using assms by (simp add: is_tool_enabled_def)
  have "list_tools srv = Inr []"
    by (simp add: list_tools_def catalogue_def en)
  moreover have "list_resources rt srv = Inr []"
    using assms by (simp add: list_resources_def)
  ultimately show ?thesis using en by simp
qed

lemma load_config_examples:
  "load_config rt0 w0 ''config/missing.json'' = JObj []
   \<and> load_config rt0 w0 ''config/mcp_config.json'' = JObj []"
proof -
  have a: "\<not> path_exists (files w0) (join_path (cwd w0) ''config/missing.json'')"
    by (simp add: w0_def fs0_def path_exists_def node_at_def join_path_def is_absolute_def
        path_parts_def step_def)
  have b: "open_read (files w0) (join_path (cwd w0) ''config/mcp_config.json'') = Inr ''{tools:''"
    by (simp add: w0_def fs0_def open_read_def join_path_def is_absolute_def path_parts_def step_def)
  have c: "json_loads rt0 ''{tools:'' = Inl (JSONDecodeError ''Expecting value: line 1 column 1 (char 0)'')"
    by (simp add: rt0_def)
  from a have "load_config rt0 w0 ''config/missing.json'' = JObj []"
    by (intro load_config_fails) simp
  moreover from b c have "load_config rt0 w0 ''config/mcp_config.json'' = JObj []"
    by (intro load_config_fails) simp
  ultimately show ?thesis by simp
qed


subsection \<open>The LM Studio tools\<close>




lemma model_ids_dicts:
  "\<forall>m \<in> set ms. \<exists>kvs. m = JObj kvs \<Longrightarrow> \<exists>ids. model_ids ms = Inr ids \<and> length ids = length ms"
  by (induction ms) auto

lemma test_connection_returns: "\<exists>status w'. test_connection lm w = (Inr status, w')"
  by (auto simp: test_connection_def split: prod.splits sum.splits)

text \<open>
  Claim C6. \<open>test_connection\<close> returns a record in every world. When the request for
  the models raises, the record has the status \<open>disconnected\<close> and the message of the
  error as \<open>list_models\<close> passes it on, which for a refused connection is the fixed text
  "Cannot connect to LM Studio. Make sure it's running.". When the gateway answers with
  a 2xx status and a body whose \<open>data\<close> is a list of \<open>N\<close> model records, the record has
  the status \<open>connected\<close>, the count \<open>N\<close> and the ids of the models.
\<close>

theorem C6_test_connection_never_raises:
  "(\<exists>status w'. test_connection lm w = (Inr status, w'))
   \<and> (\<forall>e. net w (sent w) (get_request (base_url lm @ ''/v1/models'')) = Inl e \<longrightarrow>
          test_connection lm w
            = (Inr (JObj [(''status'', JStr ''disconnected''), (''url'', JStr (base_url lm)),
                          (''error'', JStr (str_exc (list_models_except e)))]),
               w\<lparr>sent := sent w @ [get_request (base_url lm @ ''/v1/models'')]\<rparr>))
   \<and> (\<forall>m. str_exc (list_models_except (ConnectError m))
            = ''Cannot connect to LM Studio. Make sure it's running.'')
   \<and> (\<forall>resp body ms.
          net w (sent w) (get_request (base_url lm @ ''/v1/models'')) = Inr resp
          \<and> 200 \<le> status_code resp \<and> status_code resp < 300
          \<and> resp_json resp = Inr (JObj body) \<and> map_of body ''data'' = Some (JArr ms)
          \<and> (\<forall>m \<in> set ms. \<exists>kvs. m = JObj kvs) \<longrightarrow>
          (\<exists>ids. model_ids ms = Inr ids
                 \<and> test_connection lm w
                     = (Inr (JObj [(''status'', JStr ''connected''), (''url'', JStr (base_url lm)),
                                   (''models_count'', JInt (int (length ms))), (''models'', JArr ids)]),
                        w\<lparr>sent := sent w @ [get_request (base_url lm @ ''/v1/models'')]\<rparr>)))"
proof (intro conjI allI impI)
  show "\<exists>status w'. test_connection lm w = (Inr status, w')"
    by (rule test_connection_returns)
next
  fix e
  assume "net w (sent w) (get_request (base_url lm @ ''/v1/models'')) = Inl e"
  then show "test_connection lm w
            = (Inr (JObj [(''status'', JStr ''disconnected''), (''url'', JStr (base_url lm)),
                          (''error'', JStr (str_exc (list_models_except e)))]),
               w\<lparr>sent := sent w @ [get_request (base_url lm @ ''/v1/models'')]\<rparr>)"
    by (simp add: test_connection_def list_models_def http_send_def)
next
  fix m
  show "str_exc (list_models_except (ConnectError m))
            = ''Cannot connect to LM Studio. Make sure it's running.''"
    by simp
next
  fix resp body ms
  assume a: "net w (sent w) (get_request (base_url lm @ ''/v1/models'')) = Inr resp
          \<and> 200 \<le> status_code resp \<and> status_code resp < 300
          \<and> resp_json resp = Inr (JObj body) \<and> map_of body ''data'' = Some (JArr ms)
          \<and> (\<forall>m \<in> set ms. \<exists>kvs. m = JObj kvs)"
  then obtain ids where ids: "model_ids ms = Inr ids"
    using model_ids_dicts by blast
  from a have lm: "list_models lm w
      = (Inr (JArr ms), w\<lparr>sent := sent w @ [get_request (base_url lm @ ''/v1/models'')]\<rparr>)"
    by (simp add: list_models_def http_send_def raise_for_status_def)
  show "\<exists>ids. model_ids ms = Inr ids
                 \<and> test_connection lm w
                     = (Inr (JObj [(''status'', JStr ''connected''), (''url'', JStr (base_url lm)),
                                   (''models_count'', JInt (int (length ms))), (''models'', JArr ids)]),
                        w\<lparr>sent := sent w @ [get_request (base_url lm @ ''/v1/models'')]\<rparr>)"
    using ids by (simp add: test_connection_def lm)
qed

theorem C6_witness:
  "net w0 (sent w0) (get_request (base_url lm0 @ ''/v1/models''))
     = Inl (ConnectError ''All connection attempts failed'')
   \<and> test_connection lm0 w0
       = (Inr (JObj [(''status'', JStr ''disconnected''), (''url'', JStr ''http://localhost:1234''),
                     (''error'', JStr ''Cannot connect to LM Studio. Make sure it's running.'')]),
          w0\<lparr>sent := [get_request ''http://localhost:1234/v1/models'']\<rparr>)
   \<and> net w1 (sent w1) (get_request (base_url lm0 @ ''/v1/models'')) = Inr models_response0
   \<and> test_connection lm0 w1
       = (Inr (JObj [(''status'', JStr ''connected''), (''url'', JStr ''http://localhost:1234''),
                     (''models_count'', JInt 2), (''models'', JArr [JStr ''m1'', JStr ''m2''])]),
          w1\<lparr>sent := [get_request ''http://localhost:1234/v1/models'']\<rparr>)"
proof -
  have g0: "net w0 (sent w0) (get_request (base_url lm0 @ ''/v1/models''))
     = Inl (ConnectError ''All connection attempts failed'')"
    by (simp add: w0_def)
  have g1: "net w1 (sent w1) (get_request (base_url lm0 @ ''/v1/models'')) = Inr models_response0"
    by (simp add: w1_def lm0_def get_request_def)
  have s: "sent w0 = []" "sent w1 = []" "base_url lm0 = ''http://localhost:1234''"
    by (simp_all add: w0_def w1_def lm0_def)
  have r: "200 \<le> status_code models_response0 \<and> status_code models_response0 < 300
      \<and> resp_json models_response0
          = Inr (JObj [(''data'', JArr [JObj [(''id'', JStr ''m1'')], JObj [(''id'', JStr ''m2'')]])])"
    by (simp add: models_response0_def)
  from C6_test_connection_never_raises [of lm0 w0] g0
  have d: "test_connection lm0 w0
       = (Inr (JObj [(''status'', JStr ''disconnected''), (''url'', JStr ''http://localhost:1234''),
                     (''error'', JStr ''Cannot connect to LM Studio. Make sure it's running.'')]),
          w0\<lparr>sent := [get_request ''http://localhost:1234/v1/models'']\<rparr>)"
    by (simp add: s)
  from C6_test_connection_never_raises [of lm0 w1] g1 r
  have "\<exists>ids. model_ids [JObj [(''id'', JStr ''m1'')], JObj [(''id'', JStr ''m2'')]] = Inr ids
           \<and> test_connection lm0 w1
              = (Inr (JObj [(''status'', JStr ''connected''), (''url'', JStr ''http://localhost:1234''),
                     (''models_count'', JInt 2), (''models'', JArr ids)]),
                 w1\<lparr>sent := [get_request ''http://localhost:1234/v1/models'']\<rparr>)"
    by (simp add: s)
  then have c: "test_connection lm0 w1
       = (Inr (JObj [(''status'', JStr ''connected''), (''url'', JStr ''http://localhost:1234''),
                     (''models_count'', JInt 2), (''models'', JArr [JStr ''m1'', JStr ''m2''])]),
          w1\<lparr>sent := [get_request ''http://localhost:1234/v1/models'']\<rparr>)"
    by auto
  from g0 d g1 c show ?thesis by simp
qed


subsection \<open>The dispatch handler\<close>

lemma call_tool_returns: "\<exists>r w'. call_tool srv rt w name arguments = (Inr r, w')"
  by (auto simp: call_tool_def split: prod.splits sum.splits)

lemma call_tool_wraps:
  "call_tool_try srv rt w name arguments = (Inl e, w') \<Longrightarrow>
   call_tool srv rt w name arguments = (Inr (error_entry e), w')"
  by (simp add: call_tool_def)

text \<open>
  Claim C1. For every server, world, tool name and argument bag \<open>call_tool\<close> returns a
  list of entries: nothing that its body raises leaves it. Whatever the body raises
  becomes the single entry with \<open>isError\<close> true and the text \<open>"Error: "\<close> followed by
  the message of the exception. In particular, when the arguments a branch reads are
  present and the backend operation of that branch raises \<open>e\<close> (reading, writing or
  listing files, the API call, the data processing, text generation, chat completion,
  the model list), the result is that entry for \<open>e\<close>, with the world as the backend
  left it. Exceptions are the subclasses of \<open>Exception\<close>, the ones \<open>except Exception\<close>
  catches.
\<close>

theorem C1_call_tool_never_raises:
  "(\<exists>r w'. call_tool srv rt w name arguments = (Inr r, w'))
   \<and> (\<forall>e. error_entry e = [JObj [(''text'', JStr (''Error: '' @ str_exc e)), (''isError'', JBool True)]])
   \<and> (\<forall>e w'. call_tool_try srv rt w name arguments = (Inl e, w') \<longrightarrow>
          call_tool srv rt w name arguments = (Inr (error_entry e), w'))
   \<and> (\<forall>p e. map_of arguments ''path'' = Some p
             \<and> read_file (file_tools srv) (files w) p = Inl e \<longrightarrow>
          call_tool srv rt w ''read_file'' arguments = (Inr (error_entry e), w))
   \<and> (\<forall>p c e fs1. map_of arguments ''path'' = Some p \<and> map_of arguments ''content'' = Some c
             \<and> write_file (file_tools srv) (files w) p c = (Inl e, fs1) \<longrightarrow>
          call_tool srv rt w ''write_file'' arguments = (Inr (error_entry e), w\<lparr>files := fs1\<rparr>))
   \<and> (\<forall>d e. map_of arguments ''directory'' = Some d
             \<and> list_files (file_tools srv) (files w) d = Inl e \<longrightarrow>
          call_tool srv rt w ''list_files'' arguments = (Inr (error_entry e), w))
   \<and> (\<forall>u e w'. map_of arguments ''url'' = Some u
             \<and> call_api rt w u (arg_get arguments ''method'' (JStr ''GET''))
                   (arg_get arguments ''headers'' (JObj [])) (arg_get arguments ''body'' JNull)
                 = (Inl e, w') \<longrightarrow>
          call_tool srv rt w ''call_api'' arguments = (Inr (error_entry e), w'))
   \<and> (\<forall>d operation e. map_of arguments ''data'' = Some d \<and> map_of arguments ''operation'' = Some operation
             \<and> process_data rt d operation = Inl e \<longrightarrow>
          call_tool srv rt w ''process_data'' arguments = (Inr (error_entry e), w))
   \<and> (\<forall>lm prompt e w'. lm_studio srv = Some lm \<and> map_of arguments ''prompt'' = Some prompt
             \<and> generate_text lm w prompt (arg_get arguments ''model'' JNull)
                   (arg_get arguments ''max_tokens'' (JInt 100))
                   (arg_get arguments ''temperature'' (JFloat (7 / 10))) = (Inl e, w') \<longrightarrow>
          call_tool srv rt w ''lm_studio_generate'' arguments = (Inr (error_entry e), w'))
   \<and> (\<forall>lm messages e w'. lm_studio srv = Some lm \<and> map_of arguments ''messages'' = Some messages
             \<and> chat_completion lm w messages (arg_get arguments ''model'' JNull)
                   (arg_get arguments ''temperature'' (JFloat (7 / 10)))
                   (arg_get arguments ''max_tokens'' (JInt 500)) = (Inl e, w') \<longrightarrow>
          call_tool srv rt w ''lm_studio_chat'' arguments = (Inr (error_entry e), w'))
   \<and> (\<forall>lm e w'. lm_studio srv = Some lm \<and> list_models lm w = (Inl e, w') \<longrightarrow>
          call_tool srv rt w ''lm_studio_list_models'' arguments = (Inr (error_entry e), w'))"
proof (intro conjI allI impI)
  show "\<exists>r w'. call_tool srv rt w name arguments = (Inr r, w')"
    by (rule call_tool_returns)
next
  fix e show "error_entry e = [JObj [(''text'', JStr (''Error: '' @ str_exc e)), (''isError'', JBool True)]]"
    by (simp add: error_entry_def)
next
  fix e w' assume "call_tool_try srv rt w name arguments = (Inl e, w')"
  then show "call_tool srv rt w name arguments = (Inr (error_entry e), w')"
    by (rule call_tool_wraps)
next
  fix p e assume "map_of arguments ''path'' = Some p \<and> read_file (file_tools srv) (files w) p = Inl e"
  then show "call_tool srv rt w ''read_file'' arguments = (Inr (error_entry e), w)"
    by (simp add: call_tool_def call_tool_try_def tool_read_file_def)
next
  fix p c e fs1
  assume "map_of arguments ''path'' = Some p \<and> map_of arguments ''content'' = Some c
             \<and> write_file (file_tools srv) (files w) p c = (Inl e, fs1)"
  then show "call_tool srv rt w ''write_file'' arguments = (Inr (error_entry e), w\<lparr>files := fs1\<rparr>)"
    by (simp add: call_tool_def call_tool_try_def tool_write_file_def)
next
  fix d e assume "map_of arguments ''directory'' = Some d \<and> list_files (file_tools srv) (files w) d = Inl e"
  then show "call_tool srv rt w ''list_files'' arguments = (Inr (error_entry e), w)"
    by (simp add: call_tool_def call_tool_try_def tool_list_files_def)
next
  fix u e w'
  assume "map_of arguments ''url'' = Some u
             \<and> call_api rt w u (arg_get arguments ''method'' (JStr ''GET''))
                   (arg_get arguments ''headers'' (JObj [])) (arg_get arguments ''body'' JNull)
                 = (Inl e, w')"
  then show "call_tool srv rt w ''call_api'' arguments = (Inr (error_entry e), w')"
    by (simp add: call_tool_def call_tool_try_def tool_call_api_def)
next
  fix d operation e
  assume "map_of arguments ''data'' = Some d \<and> map_of arguments ''operation'' = Some operation
             \<and> process_data rt d operation = Inl e"
  then show "call_tool srv rt w ''process_data'' arguments = (Inr (error_entry e), w)"
    by (simp add: call_tool_def call_tool_try_def tool_process_data_def)
next
  fix lm prompt e w'
  assume "lm_studio srv = Some lm \<and> map_of arguments ''prompt'' = Some prompt
             \<and> generate_text lm w prompt (arg_get arguments ''model'' JNull)
                   (arg_get arguments ''max_tokens'' (JInt 100))
                   (arg_get arguments ''temperature'' (JFloat (7 / 10))) = (Inl e, w')"
  then show "call_tool srv rt w ''lm_studio_generate'' arguments = (Inr (error_entry e), w')"
    by (simp add: call_tool_def call_tool_try_def tool_lm_studio_generate_def)
next
  fix lm messages e w'
  assume "lm_studio srv = Some lm \<and> map_of arguments ''messages'' = Some messages
             \<and> chat_completion lm w messages (arg_get arguments ''model'' JNull)
                   (arg_get arguments ''temperature'' (JFloat (7 / 10)))
                   (arg_get arguments ''max_tokens'' (JInt 500)) = (Inl e, w')"
  then show "call_tool srv rt w ''lm_studio_chat'' arguments = (Inr (error_entry e), w')"
    by (simp add: call_tool_def call_tool_try_def tool_lm_studio_chat_def)
next
  fix lm e w'
  assume "lm_studio srv = Some lm \<and> list_models lm w = (Inl e, w')"
  then show "call_tool srv rt w ''lm_studio_list_models'' arguments = (Inr (error_entry e), w')"
    by (simp add: call_tool_def call_tool_try_def tool_lm_studio_list_models_def)
qed

text \<open>Reading a file that does not exist, through the handler.\<close>

lemma read_missing0:
  "read_file (file_tools srv0) (files w0) (JStr ''missing.txt'')
     = Inl (FileNotFoundError ''File not found: missing.txt'')"
  by (simp add: read_file_def srv0_def w0_def fs0_def join_path_def is_absolute_def path_parts_def
      within_base_def has_nul_def resolve_def step_def str_path_def path_exists_def node_at_def)

theorem C1_witness:
  "map_of [(''path'', JStr ''missing.txt'')] ''path'' = Some (JStr ''missing.txt'')
   \<and> read_file (file_tools srv0) (files w0) (JStr ''missing.txt'')
       = Inl (FileNotFoundError ''File not found: missing.txt'')
   \<and> call_tool srv0 rt0 w0 ''read_file'' [(''path'', JStr ''missing.txt'')]
       = (Inr [JObj [(''text'', JStr ''Error: File not found: missing.txt''),
                     (''isError'', JBool True)]], w0)"
  using read_missing0
    C1_call_tool_never_raises [of srv0 rt0 w0 "''read_file''" "[(''path'', JStr ''missing.txt'')]"]
  by simp


subsection \<open>Missing required fields\<close>

text \<open>A listed tool is one of the catalogue; an LM Studio tool is listed only with its adapter.\<close>

lemma append_enabled_mem:
  "append_enabled srv acc cat = Inr ts \<Longrightarrow> t \<in> set ts \<Longrightarrow>
   t \<in> set acc \<or> (\<exists>b. (b, t) \<in> set cat \<and> (b \<longrightarrow> lm_studio srv \<noteq> None))"
proof (induction cat arbitrary: acc)
  case Nil
  then show ?case by simp
next
  case (Cons bt rest)
  obtain b u where bt: "bt = (b, u)" by (cases bt)
  show ?case
  proof (cases "b \<and> lm_studio srv = None")
    case True
    with Cons.prems bt have "append_enabled srv acc rest = Inr ts" by simp
    from Cons.IH [OF this Cons.prems(2)] show ?thesis by auto
  next
    case False
    with Cons.prems bt obtain en where en: "is_tool_enabled srv (t_name u) = Inr en"
      and rec: "append_enabled srv (if en then acc @ [u] else acc) rest = Inr ts"
      by (cases "is_tool_enabled srv (t_name u)") auto
    from Cons.IH [OF rec Cons.prems(2)] False bt show ?thesis
      by (auto split: if_splits)
  qed
qed

lemma list_tools_mem:
  assumes "list_tools srv = Inr ts" and "t \<in> set ts"
  shows "\<exists>b. (b, t) \<in> set catalogue \<and> (b \<longrightarrow> lm_studio srv \<noteq> None)"
  using append_enabled_mem [of srv "[]" catalogue ts t] assms
  by (simp add: list_tools_def)

lemma key_error_entry:
  "error_entry (KeyError (repr_key g))
     = [JObj [(''text'', JStr (''Error: '' @ repr_key g)), (''isError'', JBool True)]]"
  by (simp add: error_entry_def)

lemma missing_read_file:
  "map_of arguments ''path'' = None \<Longrightarrow>
   call_tool srv rt w ''read_file'' arguments = (Inr (error_entry (KeyError (repr_key ''path''))), w)"
  by (simp add: call_tool_def call_tool_try_def tool_read_file_def)

lemma missing_write_file_path:
  "map_of arguments ''path'' = None \<Longrightarrow>
   call_tool srv rt w ''write_file'' arguments = (Inr (error_entry (KeyError (repr_key ''path''))), w)"
  by (simp add: call_tool_def call_tool_try_def tool_write_file_def)

lemma missing_write_file_content:
  "map_of arguments ''path'' = Some p \<Longrightarrow> map_of arguments ''content'' = None \<Longrightarrow>
   call_tool srv rt w ''write_file'' arguments = (Inr (error_entry (KeyError (repr_key ''content''))), w)"
  by (simp add: call_tool_def call_tool_try_def tool_write_file_def)

lemma missing_list_files:
  "map_of arguments ''directory'' = None \<Longrightarrow>
   call_tool srv rt w ''list_files'' arguments = (Inr (error_entry (KeyError (repr_key ''directory''))), w)"
  by (simp add: call_tool_def call_tool_try_def tool_list_files_def)

lemma missing_call_api_url:
  "map_of arguments ''url'' = None \<Longrightarrow>
   call_tool srv rt w ''call_api'' arguments = (Inr (error_entry (KeyError (repr_key ''url''))), w)"
  by (simp add: call_tool_def call_tool_try_def tool_call_api_def)

lemma missing_process_data_data:
  "map_of arguments ''data'' = None \<Longrightarrow>
   call_tool srv rt w ''process_data'' arguments = (Inr (error_entry (KeyError (repr_key ''data''))), w)"
  by (simp add: call_tool_def call_tool_try_def tool_process_data_def)

lemma missing_process_data_operation:
  "map_of arguments ''data'' = Some d \<Longrightarrow> map_of arguments ''operation'' = None \<Longrightarrow>
   call_tool srv rt w ''process_data'' arguments = (Inr (error_entry (KeyError (repr_key ''operation''))), w)"
  by (simp add: call_tool_def call_tool_try_def tool_process_data_def)

lemma missing_generate_prompt:
  "lm_studio srv \<noteq> None \<Longrightarrow> map_of arguments ''prompt'' = None \<Longrightarrow>
   call_tool srv rt w ''lm_studio_generate'' arguments = (Inr (error_entry (KeyError (repr_key ''prompt''))), w)"
  by (simp add: call_tool_def call_tool_try_def tool_lm_studio_generate_def)

lemma missing_chat_messages:
  "lm_studio srv \<noteq> None \<Longrightarrow> map_of arguments ''messages'' = None \<Longrightarrow>
   call_tool srv rt w ''lm_studio_chat'' arguments = (Inr (error_entry (KeyError (repr_key ''messages''))), w)"
  by (simp add: call_tool_def call_tool_try_def tool_lm_studio_chat_def)

text \<open>
  Claim C3, as the code has it. The handler does not validate the argument bag against
  the schema: it reads the fields it needs. Every required field but \<open>method\<close> of
  \<open>call_api\<close> is read by subscript, and a missing one raises \<open>KeyError\<close> before the
  backend is called. So for a listed tool and a bag that lacks a field \<open>f\<close> of the
  schema's \<open>required\<close> list, unless the tool is \<open>call_api\<close>, the field is \<open>method\<close> and
  \<open>url\<close> is present, the result is the single error entry whose text is \<open>"Error: "\<close>
  and the quoted name of a missing required field, and the world is as before: no file
  is touched and no request is sent.
\<close>

theorem C3_missing_required_field:
  assumes lt: "list_tools srv = Inr ts"
    and t: "t \<in> set ts"
    and req: "py_get (t_inputSchema t) ''required'' (JArr []) = Inr (JArr req)"
    and f: "JStr f \<in> set req"
    and miss: "map_of arguments f = None"
    and exc: "\<not> (t_name t = ''call_api'' \<and> f = ''method'' \<and> map_of arguments ''url'' \<noteq> None)"
  shows "\<exists>g. JStr g \<in> set req \<and> map_of arguments g = None
             \<and> call_tool srv rt w (t_name t) arguments
                 = (Inr [JObj [(''text'', JStr (''Error: '' @ repr_key g)), (''isError'', JBool True)]], w)"
proof -
  from list_tools_mem [OF lt t] obtain b where b: "(b, t) \<in> set catalogue"
    and lm: "b \<longrightarrow> lm_studio srv \<noteq> None" by blast
  from b consider
      (rd) "t = read_file_tool" | (wr) "t = write_file_tool" | (ls) "t = list_files_tool"
    | (api) "t = call_api_tool" | (pd) "t = process_data_tool"
    | (gen) "t = lm_studio_generate_tool" "b" | (chat) "t = lm_studio_chat_tool" "b"
    | (lmm) "t = lm_studio_list_models_tool" | (tc) "t = lm_studio_test_connection_tool"
    by (auto simp: catalogue_def)
  then show ?thesis
  proof cases
    case rd
    with req f have "req = [JStr ''path'']" "f = ''path''" by (auto simp: read_file_tool_def)
    with miss rd show ?thesis
      using missing_read_file [of arguments srv rt w]
      by (auto simp: key_error_entry read_file_tool_def)
  next
    case wr
    with req f have r: "req = [JStr ''path'', JStr ''content'']" and "f = ''path'' \<or> f = ''content''"
      by (auto simp: write_file_tool_def)
    show ?thesis
    proof (cases "map_of arguments ''path''")
      case None
      with r wr show ?thesis
        using missing_write_file_path [of arguments srv rt w]
        by (auto simp: key_error_entry write_file_tool_def)
    next
      case (Some p)
      with \<open>f = ''path'' \<or> f = ''content''\<close> miss have "map_of arguments ''content'' = None" by auto
      with Some r wr show ?thesis
        using missing_write_file_content [of arguments p srv rt w]
        by (auto simp: key_error_entry write_file_tool_def)
    qed
  next
    case ls
    with req f have "req = [JStr ''directory'']" "f = ''directory''" by (auto simp: list_files_tool_def)
    with miss ls show ?thesis
      using missing_list_files [of arguments srv rt w]
      by (auto simp: key_error_entry list_files_tool_def)
  next
    case api
    with req f have r: "req = [JStr ''url'', JStr ''method'']" and "f = ''url'' \<or> f = ''method''"
      by (auto simp: call_api_tool_def)
    with miss exc api have "map_of arguments ''url'' = None"
      by (auto simp: call_api_tool_def)
    with r api show ?thesis
      using missing_call_api_url [of arguments srv rt w]
      by (auto simp: key_error_entry call_api_tool_def)
  next
    case pd
    with req f have r: "req = [JStr ''data'', JStr ''operation'']" and "f = ''data'' \<or> f = ''operation''"
      by (auto simp: process_data_tool_def)
    show ?thesis
    proof (cases "map_of arguments ''data''")
      case None
      with r pd show ?thesis
        using missing_process_data_data [of arguments srv rt w]
        by (auto simp: key_error_entry process_data_tool_def)
    next
      case (Some d)
      with \<open>f = ''data'' \<or> f = ''operation''\<close> miss have "map_of arguments ''operation'' = None" by auto
      with Some r pd show ?thesis
        using missing_process_data_operation [of arguments d srv rt w]
        by (auto simp: key_error_entry process_data_tool_def)
    qed
  next
    case gen
    with req f have "req = [JStr ''prompt'']" "f = ''prompt''" by (auto simp: lm_studio_generate_tool_def)
    with miss gen lm show ?thesis
      using missing_generate_prompt [of srv arguments rt w]
      by (auto simp: key_error_entry lm_studio_generate_tool_def)
  next
    case chat
    with req f have "req = [JStr ''messages'']" "f = ''messages''" by (auto simp: lm_studio_chat_tool_def)
    with miss chat lm show ?thesis
      using missing_chat_messages [of srv arguments rt w]
      by (auto simp: key_error_entry lm_studio_chat_tool_def)
  next
    case lmm
    with req f show ?thesis by (auto simp: lm_studio_list_models_tool_def)
  next
    case tc
    with req f show ?thesis by (auto simp: lm_studio_test_connection_tool_def)
  qed
qed


text \<open>On the server that lists \<open>read_file\<close> and \<open>call_api\<close>: \<open>read_file\<close> without its path.\<close>

lemma list_tools_srv1: "list_tools srv1 = Inr [read_file_tool, call_api_tool]"
  by (simp add: list_tools_def catalogue_def srv1_def is_tool_enabled_def tool_defs)

theorem C3_witness:
  "list_tools srv1 = Inr [read_file_tool, call_api_tool]
   \<and> py_get (t_inputSchema read_file_tool) ''required'' (JArr []) = Inr (JArr [JStr ''path''])
   \<and> map_of ([] :: (string \<times> json) list) ''path'' = None
   \<and> call_tool srv1 rt0 w0 ''read_file'' []
       = (Inr [JObj [(''text'', JStr (''Error: '' @ repr_key ''path'')), (''isError'', JBool True)]], w0)"
  using list_tools_srv1
    C3_missing_required_field [of srv1 "[read_file_tool, call_api_tool]" read_file_tool
      "[JStr ''path'']" "''path''" "[]" rt0 w0]
  by (simp add: read_file_tool_def)

text \<open>
  Claim C3 as stated fails for \<open>call_api\<close>: the schema requires \<open>method\<close>, the handler
  reads it with the default \<open>"GET"\<close>. With \<open>call_api\<close> enabled and a bag that holds
  only \<open>url\<close>, the request is sent and the result is the entry of a success.
\<close>

theorem C3_call_api_without_method_counterexample:
  "list_tools srv1 = Inr [read_file_tool, call_api_tool]
   \<and> py_get (t_inputSchema call_api_tool) ''required'' (JArr []) = Inr (JArr [JStr ''url'', JStr ''method''])
   \<and> map_of [(''url'', JStr ''http://localhost:1234/v1/models'')] ''method'' = None
   \<and> call_tool srv1 rt0 w1 ''call_api'' [(''url'', JStr ''http://localhost:1234/v1/models'')]
       = (Inr [JObj [(''text'', JStr ''<json>'')]],
          w1\<lparr>sent := [\<lparr>req_verb = JStr ''GET'', req_url = JStr ''http://localhost:1234/v1/models'',
                         req_headers = JObj [], req_content = JNull, req_json = JNull\<rparr>]\<rparr>)"
  using list_tools_srv1
  by (simp add: call_api_tool_def call_tool_def call_tool_try_def tool_call_api_def call_api_def
      call_api_try_def arg_get_def http_send_def upper_char_def w1_def rt0_def text_entry_def)


subsection \<open>Enablement and the dispatch handler\<close>

text \<open>\<open>list_tools\<close> lists a tool only when the configuration enables its name.\<close>

lemma append_enabled_only_enabled:
  "append_enabled srv acc cat = Inr ts \<Longrightarrow> t \<in> set ts \<Longrightarrow>
   t \<in> set acc \<or> is_tool_enabled srv (t_name t) = Inr True"
proof (induction cat arbitrary: acc)
  case Nil
  then show ?case by simp
next
  case (Cons bt rest)
  obtain b u where bt: "bt = (b, u)" by (cases bt)
  show ?case
  proof (cases "b \<and> lm_studio srv = None")
    case True
    with Cons.prems bt have "append_enabled srv acc rest = Inr ts" by simp
    from Cons.IH [OF this Cons.prems(2)] show ?thesis .
  next
    case False
    with Cons.prems bt obtain en where en: "is_tool_enabled srv (t_name u) = Inr en"
      and rec: "append_enabled srv (if en then acc @ [u] else acc) rest = Inr ts"
      by (cases "is_tool_enabled srv (t_name u)") auto
    from Cons.IH [OF rec Cons.prems(2)] en show ?thesis
      by (auto split: if_splits)
  qed
qed

lemma list_tools_only_enabled:
  assumes "list_tools srv = Inr ts" and "t \<in> set ts"
  shows "is_tool_enabled srv (t_name t) = Inr True"
  using append_enabled_only_enabled [of srv "[]" catalogue ts t] assms
  by (simp add: list_tools_def)

text \<open>
  Claim C2, evaluated. The configuration enables \<open>read_file\<close> alone. The listing is
  the one descriptor of \<open>read_file\<close>, and the enablement check answers false for
  \<open>write_file\<close>; but \<open>call_tool\<close> does not ask it: the call of \<open>write_file\<close> creates
  \<open>/srv/data/new.txt\<close> and returns the entry of a success, not the error of an unknown
  tool.
\<close>

theorem C2_disabled_write_file_still_writes:
  "list_tools srv0 = Inr [read_file_tool]
   \<and> is_tool_enabled srv0 ''write_file'' = Inr False
   \<and> call_tool srv0 rt0 w0 ''write_file'' [(''path'', JStr ''new.txt''), (''content'', JStr ''data'')]
       = (Inr [JObj [(''text'', JStr ''File written successfully: Successfully wrote to new.txt'')]],
          w0\<lparr>files := fs0 @ [([''srv'', ''data'', ''new.txt''], File ''data'')]\<rparr>)"
proof -
  have l: "list_tools srv0 = Inr [read_file_tool]"
    by (simp add: list_tools_def catalogue_def srv0_def is_tool_enabled_def tool_defs)
  have e: "is_tool_enabled srv0 ''write_file'' = Inr False"
    by (simp add: srv0_def is_tool_enabled_def)
  have m: "mkdir_parents fs0 (rev [''srv'', ''data'']) = (Inr (), fs0)"
    by (simp add: fs0_def os_mkdir_def step_def eexist_def is_dir_def node_at_def)
  have wf: "write_file (file_tools srv0) (files w0) (JStr ''new.txt'') (JStr ''data'')
        = (Inr ''Successfully wrote to new.txt'', fs0 @ [([''srv'', ''data'', ''new.txt''], File ''data'')])"
    using m
    by (simp add: write_file_def srv0_def w0_def join_path_def is_absolute_def path_parts_def
        within_base_def has_nul_def resolve_def step_def str_path_def open_write_def)
       (simp add: fs0_def step_def)
  show ?thesis
    using l e wf
    by (simp add: call_tool_def call_tool_try_def tool_write_file_def text_entry_def)
qed

subsection \<open>Path containment\<close>

text \<open>
  Claim C4, evaluated. The file tools are rooted at \<open>/srv/data\<close>. The path
  \<open>../data2/secret.txt\<close> resolves to \<open>/srv/data2/secret.txt\<close>, which is not under the
  root; but the text \<open>/srv/data2/secret.txt\<close> starts with the text \<open>/srv/data\<close>, so the
  check lets it pass: \<open>read_file\<close> returns the content of the file outside the root,
  and \<open>write_file\<close> creates a file beside it.
\<close>

theorem C4_sibling_directory_escapes:
  "base_path (file_tools srv0) = [''srv'', ''data'']
   \<and> resolve (join_path (base_path (file_tools srv0)) ''../data2/secret.txt'')
       = [''srv'', ''data2'', ''secret.txt'']
   \<and> \<not> prefix (base_path (file_tools srv0))
               (resolve (join_path (base_path (file_tools srv0)) ''../data2/secret.txt''))
   \<and> read_file (file_tools srv0) fs0 (JStr ''../data2/secret.txt'') = Inr ''secret''
   \<and> write_file (file_tools srv0) fs0 (JStr ''../data2/planted.txt'') (JStr ''x'')
       = (Inr ''Successfully wrote to ../data2/planted.txt'',
          fs0 @ [([''srv'', ''data2'', ''planted.txt''], File ''x'')])"
proof -
  have b: "base_path (file_tools srv0) = [''srv'', ''data'']"
    by (simp add: srv0_def)
  have j: "join_path [''srv'', ''data''] ''../data2/secret.txt'' = [''srv'', ''data'', ''..'', ''data2'', ''secret.txt'']"
    by (simp add: join_path_def is_absolute_def path_parts_def)
  have j2: "join_path [''srv'', ''data''] ''../data2/planted.txt'' = [''srv'', ''data'', ''..'', ''data2'', ''planted.txt'']"
    by (simp add: join_path_def is_absolute_def path_parts_def)
  have r: "resolve [''srv'', ''data'', ''..'', ''data2'', ''secret.txt''] = [''srv'', ''data2'', ''secret.txt'']"
    by (simp add: resolve_def step_def)
  have rd: "read_file (file_tools srv0) fs0 (JStr ''../data2/secret.txt'') = Inr ''secret''"
    by (simp add: read_file_def b j r within_base_def has_nul_def str_path_def path_exists_def node_at_def
        open_read_def fs0_def step_def resolve_def Let_def)
  have m: "mkdir_parents fs0 (rev [''srv'', ''data'', ''..'', ''data2'']) = (Inr (), fs0)"
    by (simp add: fs0_def os_mkdir_def step_def eexist_def is_dir_def node_at_def)
  have wr: "write_file (file_tools srv0) fs0 (JStr ''../data2/planted.txt'') (JStr ''x'')
       = (Inr ''Successfully wrote to ../data2/planted.txt'',
          fs0 @ [([''srv'', ''data2'', ''planted.txt''], File ''x'')])"
    using m
    by (simp add: write_file_def b j2 within_base_def has_nul_def str_path_def resolve_def step_def open_write_def
        Let_def)
       (simp add: fs0_def step_def)
  show ?thesis
    using rd wr by (simp add: b j r)
qed

end
